theory Spec2Isabelle
  imports Main "HOL-Library.Char_ord" "HOL-Library.List_Lexorder" "HOL-Library.Multiset"
begin

section \<open>Strings and paths\<close>

text \<open>
  A Python \<open>str\<close> is modelled as a HOL \<open>string\<close>. Strings are compared by the codes of
  their characters, first difference first, a proper prefix before its extensions: the
  order of \<open>HOL-Library.List_Lexorder\<close> over \<open>HOL-Library.Char_ord\<close>, which is how Python
  compares \<open>str\<close> values. A \<open>Path\<close> below the migrations directory is modelled by its
  final component, the file name.
\<close>

text \<open>\<open>s.rfind(c)\<close> for a one-character \<open>c\<close>; \<open>None\<close> stands for Python's \<open>-1\<close>.\<close>

fun rfind :: "char \<Rightarrow> string \<Rightarrow> nat option" where
  "rfind c [] = None"
| "rfind c (x # xs) =
     (case rfind c xs of
        Some i \<Rightarrow> Some (Suc i)
      | None \<Rightarrow> if x = c then Some 0 else None)"

text \<open>
  \<open>PurePath.suffix\<close> and \<open>PurePath.stem\<close> of pathlib:
  \<^verbatim>\<open>i = name.rfind('.'); if 0 < i < len(name) - 1: return name[i:] else: return ''\<close>
  (respectively \<^verbatim>\<open>name[:i]\<close> and \<^verbatim>\<open>name\<close>).
\<close>

definition suffix :: "string \<Rightarrow> string" where
  "suffix name =
     (case rfind CHR ''.'' name of
        None \<Rightarrow> []
      | Some i \<Rightarrow> if 0 < i \<and> Suc i < length name then drop i name else [])"

definition stem :: "string \<Rightarrow> string" where
  "stem name =
     (case rfind CHR ''.'' name of
        None \<Rightarrow> name
      | Some i \<Rightarrow> if 0 < i \<and> Suc i < length name then take i name else name)"

definition startswith :: "string \<Rightarrow> string \<Rightarrow> bool" where
  "startswith s p = (take (length p) s = p)"

text \<open>\<open>s.split(c, 1)\<close> for a one-character separator: at most one cut, at the first \<open>c\<close>.\<close>

definition split1 :: "char \<Rightarrow> string \<Rightarrow> string list" where
  "split1 c s =
     (if c \<in> set s
      then [takeWhile (\<lambda>x. x \<noteq> c) s, tl (dropWhile (\<lambda>x. x \<noteq> c) s)]
      else [s])"

section \<open>The migrations directory\<close>

text \<open>
  An entry of the migrations directory, as \<open>iterdir\<close> yields it: its name and what
  \<open>is_file()\<close> answers. The directory itself is \<open>None\<close> when \<open>exists()\<close> is false and
  \<open>Some es\<close> when it is a readable directory listing \<open>es\<close>, in the order \<open>iterdir\<close> happens
  to produce. A file system never lists one name twice: \<open>wf_dir\<close>.
\<close>

record dir_entry =
  f_name :: string
  f_is_file :: bool

type_synonym directory = "dir_entry list option"

definition wf_dir :: "directory \<Rightarrow> bool" where
  "wf_dir md = (case md of None \<Rightarrow> True | Some es \<Rightarrow> distinct (map f_name es))"

definition is_migration_file :: "dir_entry \<Rightarrow> bool" where
  "is_migration_file f =
     (f_is_file f \<and> suffix (f_name f) = ''.py'' \<and> \<not> startswith (f_name f) ''__'')"

definition get_migration_files :: "directory \<Rightarrow> string list" where
  "get_migration_files md =
     (case md of
        None \<Rightarrow> []
      | Some es \<Rightarrow> sort_key (\<lambda>x. x) (map f_name (filter is_migration_file es)))"


section \<open>Time\<close>

text \<open>
  A reading of \<open>datetime.now()\<close>. Python compares naive datetimes field by field, the year
  first: \<open>dt_key\<close>, under the lexicographic order of lists. \<open>valid_datetime\<close> is the
  class invariant of Python's \<open>datetime\<close> (\<open>MINYEAR = 1\<close>, \<open>MAXYEAR = 9999\<close>).
\<close>

record datetime =
  dt_year :: nat
  dt_month :: nat
  dt_day :: nat
  dt_hour :: nat
  dt_minute :: nat
  dt_second :: nat
  dt_microsecond :: nat

definition dt_key :: "datetime \<Rightarrow> nat list" where
  "dt_key d =
     [dt_year d, dt_month d, dt_day d, dt_hour d, dt_minute d, dt_second d, dt_microsecond d]"


text \<open>
  \<open>strftime("%Y%m%d%H%M%S")\<close>: the year in decimal, zero-filled to four digits, then month,
  day, hour, minute and second, each zero-filled to two.
\<close>

definition digit :: "nat \<Rightarrow> char" where
  "digit n = char_of (48 + n)"





section \<open>The ledger and the database\<close>

text \<open>
  The dictionary \<open>apply_migration\<close> hands to \<open>insert_one\<close> is an \<open>entry\<close>; the stored
  document is a \<open>doc\<close>, the entry with the \<open>_id\<close> the store assigns to it.
\<close>

record entry =
  e_version :: string
  e_name :: string
  e_description :: string
  e_applied_at :: datetime

record doc = entry +
  d_id :: nat

text \<open>
  What the manager and the migrations print, and which operations of a unit ran. The text
  of a message is kept as a constructor:
  \<^item> \<open>ModuleNotLoadable\<close>: "Error: No se pudo cargar el modulo ...";
  \<^item> \<open>NoMigrationClass\<close>: "... no contiene una clase 'Migration'";
  \<^item> \<open>LoadError\<close>: "Error cargando migracion ...";
  \<^item> \<open>ApplyError\<close>: "Error aplicando migracion ...";
  \<^item> \<open>NothingToRollBack\<close>: "No hay migraciones aplicadas para revertir";
  \<^item> \<open>MigrationNotFound\<close>: "Migracion ... no encontrada";
  \<^item> \<open>RollbackError\<close>: "Error revirtiendo migracion: ...".
\<close>

datatype message =
    ModuleNotLoadable string
  | NoMigrationClass string
  | LoadError string
  | ApplyError string
  | NothingToRollBack
  | MigrationNotFound string
  | RollbackError

datatype event = Print message | RunUpgrade string | RunDowngrade string

text \<open>
  The state the manager works on: the \<open>_migrations\<close> collection in insertion order, the
  next \<open>_id\<close> the store will assign, the rest of the database (\<open>'d\<close>, which only the units
  read and write: the ledger is the manager's alone), the number of clock readings so
  far, and the trace of prints and executed operations.
\<close>

record 'd world =
  w_ledger :: "doc list"
  w_next_id :: nat
  w_data :: 'd
  w_ticks :: nat
  w_log :: "event list"

definition py_print :: "message \<Rightarrow> 'd world \<Rightarrow> 'd world" where
  "py_print m w = w\<lparr>w_log := w_log w @ [Print m]\<rparr>"

definition insert_one :: "entry \<Rightarrow> 'd world \<Rightarrow> 'd world" where
  "insert_one e w =
     w\<lparr>w_ledger := w_ledger w @
          [\<lparr>e_version = e_version e, e_name = e_name e, e_description = e_description e,
            e_applied_at = e_applied_at e, d_id = w_next_id w\<rparr>],
       w_next_id := Suc (w_next_id w)\<rparr>"

text \<open>\<open>delete_one({"_id": i})\<close>: the first document with that identity goes.\<close>

fun delete_one :: "nat \<Rightarrow> doc list \<Rightarrow> doc list" where
  "delete_one i [] = []"
| "delete_one i (x # xs) = (if d_id x = i then xs else x # delete_one i xs)"

text \<open>\<open>find().sort("applied_at", 1)\<close>; documents of equal time keep their insertion order.\<close>

definition get_applied_migrations :: "'d world \<Rightarrow> doc list" where
  "get_applied_migrations w = sort_key (\<lambda>m. dt_key (e_applied_at m)) (w_ledger w)"

definition get_pending_migrations :: "directory \<Rightarrow> 'd world \<Rightarrow> string list" where
  "get_pending_migrations md w =
     (let applied = set (map e_name (get_applied_migrations w));
          all_migrations = get_migration_files md
      in filter (\<lambda>m. m \<notin> applied) all_migrations)"

section \<open>Units and the loader\<close>

text \<open>
  A unit's operation runs on the database and returns, or raises. \<open>Raises\<close> is an exception
  of class \<open>Exception\<close>, the class every handler of the manager names (\<open>except Exception\<close>).
  \<open>Exits\<close> is an exception outside that class, a \<open>BaseException\<close> such as \<open>SystemExit\<close> or
  \<open>KeyboardInterrupt\<close>, which no handler of the manager catches. Both carry the database as
  the operation left it. Operations are taken to terminate.
\<close>

datatype 'd run = Returns 'd | Raises 'd | Exits 'd

record 'd migration =
  truthy :: bool
  upgrade :: "'d \<Rightarrow> 'd run"
  downgrade :: "'d \<Rightarrow> 'd run"

text \<open>
  What happens in the \<open>try\<close> body of \<open>load_migration\<close> for a given file, as a function of
  the database the module sees: no spec or no loader for the path; \<open>exec_module\<close> raises
  an \<open>Exception\<close> (the file is missing or unreadable, does not parse, or its top-level
  code raises one); the top-level code raises outside class \<open>Exception\<close> (it calls
  \<open>sys.exit()\<close>, or is interrupted); the module has no attribute \<open>Migration\<close>; instantiating
  the class raises an \<open>Exception\<close>, or raises outside that class; or an instance is made.
  Top-level code and constructors are ordinary code and may change the database.
\<close>

datatype 'd load_result =
    NoSpec
  | ExecRaises 'd
  | ExecExits 'd
  | NoClass 'd
  | InitRaises 'd
  | InitExits 'd
  | Instance "'d migration" 'd

text \<open>
  What a function of the manager gives its caller: the value it returns, or an exception
  that its \<open>except Exception\<close> does not catch and that therefore reaches the caller.
\<close>

datatype 'a outcome = Returned 'a | Escaped

text \<open>The surroundings of a run: what each file name loads to, and the clock.\<close>

record 'd env =
  unit_file :: "string \<Rightarrow> 'd \<Rightarrow> 'd load_result"
  clock :: "nat \<Rightarrow> datetime"

definition load_migration ::
  "'d env \<Rightarrow> string \<Rightarrow> 'd world \<Rightarrow> 'd migration option outcome \<times> 'd world" where
  "load_migration env filepath w =
     (case unit_file env filepath (w_data w) of
        NoSpec \<Rightarrow> (Returned None, py_print (ModuleNotLoadable filepath) w)
      | ExecRaises d \<Rightarrow> (Returned None, py_print (LoadError filepath) (w\<lparr>w_data := d\<rparr>))
      | ExecExits d \<Rightarrow> (Escaped, w\<lparr>w_data := d\<rparr>)
      | NoClass d \<Rightarrow>
          (Returned None, py_print (NoMigrationClass filepath) (w\<lparr>w_data := d\<rparr>))
      | InitRaises d \<Rightarrow> (Returned None, py_print (LoadError filepath) (w\<lparr>w_data := d\<rparr>))
      | InitExits d \<Rightarrow> (Escaped, w\<lparr>w_data := d\<rparr>)
      | Instance m d \<Rightarrow> (Returned (Some m), w\<lparr>w_data := d\<rparr>))"

section \<open>The manager\<close>

text \<open>
  The manager is connected (the commands call \<open>connect()\<close> first) and the store answers.
  \<open>if not migration\<close> tests the instance's truth value: \<open>truthy\<close>. The handlers of
  \<open>apply_migration\<close> and \<open>rollback_migration\<close> are \<open>except Exception\<close>: what escapes the
  loader, and an operation that raises outside class \<open>Exception\<close>, escapes them too.
\<close>

definition description_of :: "string \<Rightarrow> string" where
  "description_of filepath =
     (if CHR ''_'' \<in> set (stem filepath) then split1 CHR ''_'' (stem filepath) ! 1 else [])"

definition apply_migration ::
  "'d env \<Rightarrow> string \<Rightarrow> 'd world \<Rightarrow> bool outcome \<times> 'd world" where
  "apply_migration env filepath w =
     (case load_migration env filepath w of
        (Escaped, w1) \<Rightarrow> (Escaped, w1)
      | (Returned None, w1) \<Rightarrow> (Returned False, w1)
      | (Returned (Some m), w1) \<Rightarrow>
          if \<not> truthy m then (Returned False, w1)
          else
            (case upgrade m (w_data w1) of
               Raises d \<Rightarrow>
                 (Returned False,
                  py_print (ApplyError filepath)
                    (w1\<lparr>w_data := d, w_log := w_log w1 @ [RunUpgrade filepath]\<rparr>))
             | Exits d \<Rightarrow>
                 (Escaped, w1\<lparr>w_data := d, w_log := w_log w1 @ [RunUpgrade filepath]\<rparr>)
             | Returns d \<Rightarrow>
                 (let w2 = w1\<lparr>w_data := d, w_log := w_log w1 @ [RunUpgrade filepath]\<rparr>;
                      now = clock env (w_ticks w2);
                      w3 = w2\<lparr>w_ticks := Suc (w_ticks w2)\<rparr>
                  in (Returned True,
                      insert_one
                        \<lparr>e_version = stem filepath, e_name = filepath,
                          e_description = description_of filepath, e_applied_at = now\<rparr>
                        w3))))"

text \<open>
  The second half of \<open>rollback_migration\<close>, once the record is chosen: load the unit of the
  record's name, run its \<open>downgrade\<close>, then \<open>delete_one\<close> by the record's \<open>_id\<close>.
\<close>

definition rollback_record ::
  "'d env \<Rightarrow> doc \<Rightarrow> 'd world \<Rightarrow> bool outcome \<times> 'd world" where
  "rollback_record env migration_record w =
     (case load_migration env (e_name migration_record) w of
        (Escaped, w1) \<Rightarrow> (Escaped, w1)
      | (Returned None, w1) \<Rightarrow> (Returned False, w1)
      | (Returned (Some m), w1) \<Rightarrow>
          if \<not> truthy m then (Returned False, w1)
          else
            (let ran = w_log w1 @ [RunDowngrade (e_name migration_record)] in
             case downgrade m (w_data w1) of
               Raises d \<Rightarrow>
                 (Returned False, py_print RollbackError (w1\<lparr>w_data := d, w_log := ran\<rparr>))
             | Exits d \<Rightarrow> (Escaped, w1\<lparr>w_data := d, w_log := ran\<rparr>)
             | Returns d \<Rightarrow>
                 (Returned True,
                  w1\<lparr>w_ledger := delete_one (d_id migration_record) (w_ledger w1),
                     w_data := d, w_log := ran\<rparr>)))"

text \<open>
  \<open>if not migration_name\<close> holds for \<open>None\<close> and for the empty string; \<open>applied[-1]\<close> is read
  only when \<open>applied\<close> is not empty; \<open>next(..., None)\<close> is the first match.
\<close>

definition rollback_migration ::
  "'d env \<Rightarrow> string option \<Rightarrow> 'd world \<Rightarrow> bool outcome \<times> 'd world" where
  "rollback_migration env migration_name w =
     (let applied = get_applied_migrations w in
      if applied = [] then (Returned False, py_print NothingToRollBack w)
      else
        (case migration_name of
           None \<Rightarrow> rollback_record env (last applied) w
         | Some n \<Rightarrow>
             if n = [] then rollback_record env (last applied) w
             else
               (case find (\<lambda>m. e_name m = n) applied of
                  None \<Rightarrow> (Returned False, py_print (MigrationNotFound n) w)
                | Some migration_record \<Rightarrow> rollback_record env migration_record w)))"

record status =
  st_total :: nat
  st_applied :: nat
  st_pending :: nat
  st_applied_migrations :: "doc list"
  st_pending_migrations :: "string list"

definition get_status :: "directory \<Rightarrow> 'd world \<Rightarrow> status" where
  "get_status md w =
     (let all_migrations = get_migration_files md;
          applied = get_applied_migrations w;
          applied_names = set (map e_name applied);
          pending = filter (\<lambda>m. m \<notin> applied_names) all_migrations
      in \<lparr>st_total = length all_migrations, st_applied = length applied,
           st_pending = length pending, st_applied_migrations = applied,
           st_pending_migrations = pending\<rparr>)"

section \<open>The command that runs the pending migrations\<close>

text \<open>
  The \<open>migrate\<close> command of the command line: the pending list is computed once, the units
  are applied in its order, and the first failure raises \<open>click.Abort\<close>. The handler of
  the command is \<open>except Exception\<close> too: what escapes \<open>apply_migration\<close> ends the command
  (\<open>Exited\<close>). What the command echoes is left out.
\<close>

datatype exit = Done | Aborted | Exited

fun apply_each :: "'d env \<Rightarrow> string list \<Rightarrow> 'd world \<Rightarrow> exit \<times> 'd world" where
  "apply_each env [] w = (Done, w)"
| "apply_each env (migration_file # rest) w =
     (case apply_migration env migration_file w of
        (Returned True, w') \<Rightarrow> apply_each env rest w'
      | (Returned False, w') \<Rightarrow> (Aborted, w')
      | (Escaped, w') \<Rightarrow> (Exited, w'))"

definition migrate :: "'d env \<Rightarrow> directory \<Rightarrow> 'd world \<Rightarrow> exit \<times> 'd world" where
  "migrate env md w =
     (let pending = get_pending_migrations md w in
      if pending = [] then (Done, w) else apply_each env pending w)"

section \<open>Authoring a unit\<close>







section \<open>A small installation\<close>

text \<open>
  Units over a database that is a counter. \<open>init_unit\<close> always succeeds.
  \<open>add_index_unit\<close> raises while the counter is below two, having written to the database
  before it raises; its \<open>downgrade\<close> always raises. The operations of \<open>interrupted_unit\<close>
  are interrupted (\<open>KeyboardInterrupt\<close>). The module \<open>20250104000000_exit.py\<close> calls
  \<open>sys.exit()\<close> at its top level. Any other file has no loader.
\<close>

definition init_unit :: "nat migration" where
  "init_unit =
     \<lparr>truthy = True, upgrade = (\<lambda>d. Returns (Suc d)), downgrade = (\<lambda>d. Returns (d - 1))\<rparr>"

definition add_index_unit :: "nat migration" where
  "add_index_unit =
     \<lparr>truthy = True,
      upgrade = (\<lambda>d. if d < 2 then Raises (Suc d) else Returns (Suc d)),
      downgrade = (\<lambda>d. Raises d)\<rparr>"

definition interrupted_unit :: "nat migration" where
  "interrupted_unit =
     \<lparr>truthy = True, upgrade = (\<lambda>d. Exits (Suc d)), downgrade = (\<lambda>d. Exits d)\<rparr>"

definition ex_clock :: "nat \<Rightarrow> datetime" where
  "ex_clock k =
     \<lparr>dt_year = 2025, dt_month = 1, dt_day = 3, dt_hour = 12, dt_minute = 0, dt_second = k,
      dt_microsecond = 0\<rparr>"

definition ex_env :: "nat env" where
  "ex_env =
     \<lparr>unit_file =
        (\<lambda>f d. if f = ''20250101000000_init.py'' then Instance init_unit d
               else if f = ''20250102000000_add_index.py'' then Instance add_index_unit d
               else if f = ''20250104000000_exit.py'' then ExecExits d
               else if f = ''20250105000000_interrupted.py'' then Instance interrupted_unit d
               else NoSpec),
      clock = ex_clock\<rparr>"

definition ex_entries :: "dir_entry list" where
  "ex_entries =
     [\<lparr>f_name = ''20250102000000_add_index.py'', f_is_file = True\<rparr>,
      \<lparr>f_name = ''__pycache__'', f_is_file = False\<rparr>,
      \<lparr>f_name = ''20250101000000_init.py'', f_is_file = True\<rparr>]"

definition ex_dir :: directory where
  "ex_dir = Some ex_entries"

definition ex_world :: "nat world" where
  "ex_world = \<lparr>w_ledger = [], w_next_id = 0, w_data = 0, w_ticks = 0, w_log = []\<rparr>"

text \<open>The state after both units have been applied, one second apart.\<close>

definition init_doc :: doc where
  "init_doc =
     \<lparr>e_version = ''20250101000000_init'', e_name = ''20250101000000_init.py'',
      e_description = ''init'', e_applied_at = ex_clock 0, d_id = 0\<rparr>"

definition add_index_doc :: doc where
  "add_index_doc =
     \<lparr>e_version = ''20250102000000_add_index'', e_name = ''20250102000000_add_index.py'',
      e_description = ''add_index'', e_applied_at = ex_clock 1, d_id = 1\<rparr>"

definition ex_applied :: "nat world" where
  "ex_applied =
     \<lparr>w_ledger = [init_doc, add_index_doc], w_next_id = 2, w_data = 3, w_ticks = 2,
      w_log = []\<rparr>"

text \<open>A ledger whose latest entry is of the unit that is interrupted.\<close>

definition interrupted_doc :: doc where
  "interrupted_doc =
     \<lparr>e_version = ''20250105000000_interrupted'', e_name = ''20250105000000_interrupted.py'',
      e_description = ''interrupted'', e_applied_at = ex_clock 1, d_id = 1\<rparr>"

definition ex_interrupted :: "nat world" where
  "ex_interrupted =
     \<lparr>w_ledger = [init_doc, interrupted_doc], w_next_id = 2, w_data = 2, w_ticks = 2,
      w_log = []\<rparr>"

text \<open>A ledger with an entry whose file is no longer in the directory.\<close>

definition gone_doc :: doc where
  "gone_doc =
     \<lparr>e_version = ''20250103000000_gone'', e_name = ''20250103000000_gone.py'',
      e_description = ''gone'', e_applied_at = ex_clock 1, d_id = 1\<rparr>"

definition ex_orphan :: "nat world" where
  "ex_orphan =
     \<lparr>w_ledger = [init_doc, gone_doc], w_next_id = 2, w_data = 2, w_ticks = 2, w_log = []\<rparr>"



section \<open>Discovery\<close>

lemma sort_mset_cong:
  fixes xs ys :: "'a::linorder list"
  assumes "mset xs = mset ys"
  shows "sort_key (\<lambda>x. x) xs = sort_key (\<lambda>x. x) ys"
proof -
  have "mset (sort_key (\<lambda>x. x) ys) = mset xs" using assms by simp
  moreover have "sorted (sort_key (\<lambda>x. x) ys)" using sorted_sort_key [of "\<lambda>x. x" ys] by simp
  ultimately show ?thesis by (rule properties_for_sort)
qed

lemma sorted_get_migration_files: "sorted (get_migration_files md)"
  using sorted_sort_key [of "\<lambda>x. x"]
  by (cases md) (simp_all add: get_migration_files_def)

lemma mset_get_migration_files:
  "mset (get_migration_files (Some es)) = mset (map f_name (filter is_migration_file es))"
  by (simp add: get_migration_files_def)


lemma get_migration_files_perm:
  assumes "mset es' = mset es"
  shows "get_migration_files (Some es') = get_migration_files (Some es)"
proof -
  have "mset (map f_name (filter is_migration_file es')) =
        mset (map f_name (filter is_migration_file es))"
    using assms by (metis mset_filter mset_map)
  then show ?thesis
    by (simp add: get_migration_files_def sort_mset_cong)
qed





lemma startswith_iff: "startswith s p \<longleftrightarrow> (\<exists>r. s = p @ r)"
  unfolding startswith_def
  by (metis append_eq_conv_conj append_take_drop_id)

text \<open>
  Claim C2. A missing directory gives the empty sequence. For a directory listing \<open>es\<close> the
  result is sorted ascending by name and holds, each as often as it is listed, the names
  of the entries that are files, have the suffix \<open>.py\<close> and do not start with two
  underscores; a sorted sequence with these elements is unique. The result does not
  depend on the order in which the directory is listed: two calls on the same directory
  give the same sequence.
\<close>

theorem get_migration_files_sorted_filtered:
  "get_migration_files None = [] \<and>
   sorted (get_migration_files (Some es)) \<and>
   mset (get_migration_files (Some es)) =
     mset (map f_name
       (filter (\<lambda>f. f_is_file f \<and> suffix (f_name f) = ''.py'' \<and>
                     \<not> startswith (f_name f) ''__'') es)) \<and>
   (mset es' = mset es \<longrightarrow> get_migration_files (Some es') = get_migration_files (Some es))"
proof -
  have "get_migration_files None = []" by (simp add: get_migration_files_def)
  moreover have "is_migration_file =
      (\<lambda>f. f_is_file f \<and> suffix (f_name f) = ''.py'' \<and> \<not> startswith (f_name f) ''__'')"
    by (rule ext) (simp add: is_migration_file_def)
  ultimately show ?thesis
    using sorted_get_migration_files [of "Some es"] mset_get_migration_files [of es]
      get_migration_files_perm [of es' es]
    by simp
qed

theorem get_migration_files_sorted_filtered_witness:
  "mset [\<lparr>f_name = ''a.py'', f_is_file = True\<rparr>, \<lparr>f_name = ''b.py'', f_is_file = True\<rparr>,
         \<lparr>f_name = ''__init__.py'', f_is_file = True\<rparr>, \<lparr>f_name = ''c.py'', f_is_file = False\<rparr>] =
   mset [\<lparr>f_name = ''__init__.py'', f_is_file = True\<rparr>, \<lparr>f_name = ''b.py'', f_is_file = True\<rparr>,
         \<lparr>f_name = ''c.py'', f_is_file = False\<rparr>, \<lparr>f_name = ''a.py'', f_is_file = True\<rparr>] \<and>
   get_migration_files
     (Some [\<lparr>f_name = ''a.py'', f_is_file = True\<rparr>, \<lparr>f_name = ''b.py'', f_is_file = True\<rparr>,
         \<lparr>f_name = ''__init__.py'', f_is_file = True\<rparr>, \<lparr>f_name = ''c.py'', f_is_file = False\<rparr>]) =
   get_migration_files
     (Some [\<lparr>f_name = ''__init__.py'', f_is_file = True\<rparr>, \<lparr>f_name = ''b.py'', f_is_file = True\<rparr>,
         \<lparr>f_name = ''c.py'', f_is_file = False\<rparr>, \<lparr>f_name = ''a.py'', f_is_file = True\<rparr>]) \<and>
   get_migration_files
     (Some [\<lparr>f_name = ''__init__.py'', f_is_file = True\<rparr>, \<lparr>f_name = ''b.py'', f_is_file = True\<rparr>,
         \<lparr>f_name = ''c.py'', f_is_file = False\<rparr>, \<lparr>f_name = ''a.py'', f_is_file = True\<rparr>]) =
     [''a.py'', ''b.py'']"
proof -
  have m: "mset [\<lparr>f_name = ''a.py'', f_is_file = True\<rparr>, \<lparr>f_name = ''b.py'', f_is_file = True\<rparr>,
         \<lparr>f_name = ''__init__.py'', f_is_file = True\<rparr>, \<lparr>f_name = ''c.py'', f_is_file = False\<rparr>] =
   mset [\<lparr>f_name = ''__init__.py'', f_is_file = True\<rparr>, \<lparr>f_name = ''b.py'', f_is_file = True\<rparr>,
         \<lparr>f_name = ''c.py'', f_is_file = False\<rparr>, \<lparr>f_name = ''a.py'', f_is_file = True\<rparr>]"
    by simp
  have v: "get_migration_files
     (Some [\<lparr>f_name = ''__init__.py'', f_is_file = True\<rparr>, \<lparr>f_name = ''b.py'', f_is_file = True\<rparr>,
         \<lparr>f_name = ''c.py'', f_is_file = False\<rparr>, \<lparr>f_name = ''a.py'', f_is_file = True\<rparr>]) =
     [''a.py'', ''b.py'']"
    by code_simp
  from get_migration_files_sorted_filtered
    [of "[\<lparr>f_name = ''__init__.py'', f_is_file = True\<rparr>, \<lparr>f_name = ''b.py'', f_is_file = True\<rparr>,
         \<lparr>f_name = ''c.py'', f_is_file = False\<rparr>, \<lparr>f_name = ''a.py'', f_is_file = True\<rparr>]"
       "[\<lparr>f_name = ''a.py'', f_is_file = True\<rparr>, \<lparr>f_name = ''b.py'', f_is_file = True\<rparr>,
         \<lparr>f_name = ''__init__.py'', f_is_file = True\<rparr>, \<lparr>f_name = ''c.py'', f_is_file = False\<rparr>]"] m v
  show ?thesis by blast
qed

section \<open>Applying one unit\<close>

lemma py_print_frame [simp]:
  "w_ledger (py_print m w) = w_ledger w" "w_next_id (py_print m w) = w_next_id w"
  "w_data (py_print m w) = w_data w" "w_ticks (py_print m w) = w_ticks w"
  by (simp_all add: py_print_def)

lemma load_migration_frame:
  assumes "load_migration env f w = (r, w1)"
  shows "w_ledger w1 = w_ledger w \<and> w_next_id w1 = w_next_id w \<and> w_ticks w1 = w_ticks w"
  using assms by (auto simp: load_migration_def split: load_result.splits)

lemma apply_migration_load_None:
  assumes "fst (load_migration env f w) = Returned None"
  shows "apply_migration env f w = (Returned False, snd (load_migration env f w))"
  using assms by (cases "load_migration env f w") (simp add: apply_migration_def)

lemma apply_migration_load_Escaped:
  assumes "fst (load_migration env f w) = Escaped"
  shows "apply_migration env f w = (Escaped, snd (load_migration env f w))"
  using assms by (cases "load_migration env f w") (simp add: apply_migration_def)

lemma apply_migration_not_True:
  assumes "apply_migration env f w = (r, w')" "r \<noteq> Returned True"
  shows "w_ledger w' = w_ledger w \<and> w_next_id w' = w_next_id w"
proof (cases "load_migration env f w")
  case (Pair l w1)
  note fr = load_migration_frame [OF Pair]
  show ?thesis
  proof (cases l)
    case Escaped
    with assms Pair fr show ?thesis by (simp add: apply_migration_def)
  next
    case (Returned o1)
    show ?thesis
    proof (cases o1)
      case None
      with assms Pair fr Returned show ?thesis by (simp add: apply_migration_def)
    next
      case (Some m)
      with assms Pair fr Returned show ?thesis
        by (auto simp: apply_migration_def Let_def split: if_splits run.splits)
    qed
  qed
qed

lemma apply_migration_False:
  assumes "apply_migration env f w = (Returned False, w')"
  shows "w_ledger w' = w_ledger w \<and> w_next_id w' = w_next_id w"
  using apply_migration_not_True [OF assms] by simp

lemma apply_migration_True:
  assumes "apply_migration env f w = (Returned True, w')"
  shows "\<exists>m w1 d. load_migration env f w = (Returned (Some m), w1) \<and> truthy m \<and>
           upgrade m (w_data w1) = Returns d \<and>
           w_ledger w' = w_ledger w @
             [\<lparr>e_version = stem f, e_name = f, e_description = description_of f,
               e_applied_at = clock env (w_ticks w), d_id = w_next_id w\<rparr>] \<and>
           w_next_id w' = Suc (w_next_id w)"
proof (cases "load_migration env f w")
  case (Pair l w1)
  note fr = load_migration_frame [OF Pair]
  show ?thesis
  proof (cases l)
    case Escaped
    with assms Pair show ?thesis by (simp add: apply_migration_def)
  next
    case (Returned o1)
    show ?thesis
    proof (cases o1)
      case None
      with assms Pair Returned show ?thesis by (simp add: apply_migration_def)
    next
      case (Some m)
      with assms Pair fr Returned show ?thesis
        by (auto simp: apply_migration_def Let_def insert_one_def
            split: if_splits run.splits)
    qed
  qed
qed

text \<open>
  Claim C3. When the load phase fails (\<open>load_migration\<close> returns no instance), and when the
  unit's \<open>upgrade\<close> raises, \<open>apply_migration\<close> returns \<open>False\<close> and the ledger is as it was.
  The ledger changes only in a call that returns \<open>True\<close>, and then the unit was loaded
  and its \<open>upgrade\<close> returned. In particular the ledger is as it was also when an
  exception outside class \<open>Exception\<close> escapes the call.
\<close>

theorem apply_migration_failure_keeps_ledger:
  "(fst (load_migration env f w) = Returned None \<longrightarrow>
      fst (apply_migration env f w) = Returned False \<and>
      w_ledger (snd (apply_migration env f w)) = w_ledger w) \<and>
   (\<forall>m w1 d. load_migration env f w = (Returned (Some m), w1) \<and>
        upgrade m (w_data w1) = Raises d \<longrightarrow>
      fst (apply_migration env f w) = Returned False \<and>
      w_ledger (snd (apply_migration env f w)) = w_ledger w) \<and>
   (w_ledger (snd (apply_migration env f w)) \<noteq> w_ledger w \<longrightarrow>
      fst (apply_migration env f w) = Returned True \<and>
      (\<exists>m w1 d. load_migration env f w = (Returned (Some m), w1) \<and>
         upgrade m (w_data w1) = Returns d)) \<and>
   (fst (apply_migration env f w) = Escaped \<longrightarrow>
      w_ledger (snd (apply_migration env f w)) = w_ledger w)"
proof -
  obtain r w' where a: "apply_migration env f w = (r, w')" by (cases "apply_migration env f w")
  have 1: "fst (load_migration env f w) = Returned None \<Longrightarrow> r = Returned False"
    using a by (cases "load_migration env f w") (auto simp: apply_migration_def)
  have 2: "load_migration env f w = (Returned (Some m), w1) \<Longrightarrow>
      upgrade m (w_data w1) = Raises d \<Longrightarrow> r = Returned False"
    for m w1 d
    using a by (auto simp: apply_migration_def split: if_splits)
  have 3: "r \<noteq> Returned True \<Longrightarrow> w_ledger w' = w_ledger w"
    using apply_migration_not_True [OF a] by simp
  have 4: "r = Returned True \<Longrightarrow>
      \<exists>m w1 d. load_migration env f w = (Returned (Some m), w1) \<and>
        upgrade m (w_data w1) = Returns d"
    using a apply_migration_True [of env f w w'] by auto
  show ?thesis
  proof (cases "r = Returned True")
    case True
    with a 1 2 4 show ?thesis by auto
  next
    case False
    with a 1 2 3 show ?thesis by auto
  qed
qed

theorem apply_migration_failure_keeps_ledger_witness:
  "fst (load_migration ex_env ''20250103000000_gone.py'' ex_world) = Returned None \<and>
   fst (apply_migration ex_env ''20250103000000_gone.py'' ex_world) = Returned False \<and>
   w_ledger (snd (apply_migration ex_env ''20250103000000_gone.py'' ex_world)) = w_ledger ex_world \<and>
   load_migration ex_env ''20250102000000_add_index.py'' ex_world =
     (Returned (Some add_index_unit), ex_world) \<and>
   upgrade add_index_unit (w_data ex_world) = Raises 1 \<and>
   fst (apply_migration ex_env ''20250102000000_add_index.py'' ex_world) = Returned False \<and>
   w_ledger (snd (apply_migration ex_env ''20250102000000_add_index.py'' ex_world)) =
     w_ledger ex_world \<and>
   w_ledger (snd (apply_migration ex_env ''20250101000000_init.py'' ex_world)) \<noteq> w_ledger ex_world \<and>
   fst (apply_migration ex_env ''20250101000000_init.py'' ex_world) = Returned True \<and>
   (\<exists>m w1 d. load_migration ex_env ''20250101000000_init.py'' ex_world = (Returned (Some m), w1) \<and>
      upgrade m (w_data w1) = Returns d) \<and>
   fst (apply_migration ex_env ''20250105000000_interrupted.py'' ex_world) = Escaped \<and>
   w_ledger (snd (apply_migration ex_env ''20250105000000_interrupted.py'' ex_world)) =
     w_ledger ex_world"
proof -
  have h1: "fst (load_migration ex_env ''20250103000000_gone.py'' ex_world) = Returned None"
    by (simp add: load_migration_def ex_env_def)
  have h2: "load_migration ex_env ''20250102000000_add_index.py'' ex_world =
      (Returned (Some add_index_unit), ex_world)"
    by (simp add: load_migration_def ex_env_def ex_world_def)
  have h3: "upgrade add_index_unit (w_data ex_world) = Raises 1"
    by (simp add: add_index_unit_def ex_world_def)
  have h4: "w_ledger (snd (apply_migration ex_env ''20250101000000_init.py'' ex_world)) \<noteq>
      w_ledger ex_world"
    by (simp add: apply_migration_def load_migration_def ex_env_def ex_world_def init_unit_def
        insert_one_def Let_def)
  have h5: "fst (apply_migration ex_env ''20250105000000_interrupted.py'' ex_world) = Escaped"
    by (simp add: apply_migration_def load_migration_def ex_env_def ex_world_def
        interrupted_unit_def)
  show ?thesis
    using h1 h2 h3 h4 h5
      apply_migration_failure_keeps_ledger [of ex_env "''20250103000000_gone.py''" ex_world]
      apply_migration_failure_keeps_ledger [of ex_env "''20250102000000_add_index.py''" ex_world]
      apply_migration_failure_keeps_ledger [of ex_env "''20250101000000_init.py''" ex_world]
      apply_migration_failure_keeps_ledger [of ex_env "''20250105000000_interrupted.py''" ex_world]
    by blast
qed

section \<open>The entry written\<close>

lemma stem_suffix: "stem n @ suffix n = n"
  by (simp add: stem_def suffix_def split: option.splits)

lemma description_of_cases:
  "(if CHR ''_'' \<in> set (stem f)
    then \<exists>ts. CHR ''_'' \<notin> set ts \<and> stem f = ts @ CHR ''_'' # description_of f
    else description_of f = [])"
proof (cases "CHR ''_'' \<in> set (stem f)")
  case True
  let ?p = "\<lambda>x. x \<noteq> CHR ''_''"
  have d: "dropWhile ?p (stem f) \<noteq> []" using True by (simp add: dropWhile_eq_Nil_conv)
  then have "hd (dropWhile ?p (stem f)) = CHR ''_''"
    using hd_dropWhile [of ?p "stem f"] by simp
  with d have "dropWhile ?p (stem f) = CHR ''_'' # tl (dropWhile ?p (stem f))"
    by (metis list.collapse)
  then have "stem f = takeWhile ?p (stem f) @ CHR ''_'' # tl (dropWhile ?p (stem f))"
    by (metis takeWhile_dropWhile_id)
  moreover have "CHR ''_'' \<notin> set (takeWhile ?p (stem f))"
    by (auto dest: set_takeWhileD)
  moreover have "description_of f = tl (dropWhile ?p (stem f))"
    using True by (simp add: description_of_def split1_def)
  ultimately show ?thesis using True by auto
next
  case False
  then show ?thesis by (simp add: description_of_def)
qed

text \<open>
  Claim C8. When \<open>apply_migration\<close> succeeds, exactly one entry is added to the ledger. Its
  version is the file name without its extension (the stem: version and suffix make up
  the name), its name is the file name, its description is what follows the first
  underscore of the stem (empty when the stem has no underscore), and its time is the
  reading of the clock taken by this call.
\<close>

theorem apply_migration_entry:
  assumes "fst (apply_migration env f w) = Returned True"
  shows "\<exists>e. w_ledger (snd (apply_migration env f w)) = w_ledger w @ [e] \<and>
           e_version e = stem f \<and> e_version e @ suffix f = f \<and>
           e_name e = f \<and>
           (if CHR ''_'' \<in> set (stem f)
            then \<exists>ts. CHR ''_'' \<notin> set ts \<and> stem f = ts @ CHR ''_'' # e_description e
            else e_description e = []) \<and>
           e_applied_at e = clock env (w_ticks w)"
proof -
  obtain w' where a: "apply_migration env f w = (Returned True, w')"
    using assms by (cases "apply_migration env f w") simp
  from apply_migration_True [OF a] a stem_suffix [of f] description_of_cases [of f]
  show ?thesis by (auto split: if_splits)
qed

theorem apply_migration_entry_witness:
  "fst (apply_migration ex_env ''20250101000000_init.py'' ex_world) = Returned True \<and>
   (\<exists>e. w_ledger (snd (apply_migration ex_env ''20250101000000_init.py'' ex_world)) =
          w_ledger ex_world @ [e] \<and>
        e_version e = stem ''20250101000000_init.py'' \<and>
        e_version e @ suffix ''20250101000000_init.py'' = ''20250101000000_init.py'' \<and>
        e_name e = ''20250101000000_init.py'' \<and>
        (if CHR ''_'' \<in> set (stem ''20250101000000_init.py'')
         then \<exists>ts. CHR ''_'' \<notin> set ts \<and>
                stem ''20250101000000_init.py'' = ts @ CHR ''_'' # e_description e
         else e_description e = []) \<and>
        e_applied_at e = clock ex_env (w_ticks ex_world)) \<and>
   w_ledger (snd (apply_migration ex_env ''20250101000000_init.py'' ex_world)) =
     [\<lparr>e_version = ''20250101000000_init'', e_name = ''20250101000000_init.py'',
       e_description = ''init'',
       e_applied_at =
         \<lparr>dt_year = 2025, dt_month = 1, dt_day = 3, dt_hour = 12, dt_minute = 0,
          dt_second = 0, dt_microsecond = 0\<rparr>,
       d_id = 0\<rparr>]"
proof -
  have h: "fst (apply_migration ex_env ''20250101000000_init.py'' ex_world) = Returned True"
    by code_simp
  have v: "w_ledger (snd (apply_migration ex_env ''20250101000000_init.py'' ex_world)) =
     [\<lparr>e_version = ''20250101000000_init'', e_name = ''20250101000000_init.py'',
       e_description = ''init'',
       e_applied_at =
         \<lparr>dt_year = 2025, dt_month = 1, dt_day = 3, dt_hour = 12, dt_minute = 0,
          dt_second = 0, dt_microsecond = 0\<rparr>,
       d_id = 0\<rparr>]"
    by code_simp
  from h apply_migration_entry [OF h] v show ?thesis by blast
qed

section \<open>Loading\<close>

text \<open>
  Claim C7, as the code has it. \<open>load_migration\<close> gives \<open>None\<close> for every resolution failure
  that is, or raises, an exception of class \<open>Exception\<close>: no spec or loader, the module's
  execution raises one, the module has no class \<open>Migration\<close>, the class cannot be
  instantiated. It gives the instance when one is made. An exception outside class
  \<open>Exception\<close> raised by the module's top-level code or by the constructor is not caught:
  it reaches the caller, and these are the only cases in which \<open>load_migration\<close> does not
  return. Loading never touches the ledger. On \<open>None\<close> the surrounding step stops where
  the load left it: \<open>apply_migration\<close> and the rollback of a chosen record return \<open>False\<close>
  with the state the load produced; an exception that escapes the loader escapes them too,
  with that state.
\<close>

theorem load_migration_catches_Exception:
  "(unit_file env f (w_data w) = NoSpec \<longrightarrow> fst (load_migration env f w) = Returned None) \<and>
   (\<forall>d. unit_file env f (w_data w) = ExecRaises d \<longrightarrow>
      fst (load_migration env f w) = Returned None) \<and>
   (\<forall>d. unit_file env f (w_data w) = NoClass d \<longrightarrow>
      fst (load_migration env f w) = Returned None) \<and>
   (\<forall>d. unit_file env f (w_data w) = InitRaises d \<longrightarrow>
      fst (load_migration env f w) = Returned None) \<and>
   (\<forall>m d. unit_file env f (w_data w) = Instance m d \<longrightarrow>
      fst (load_migration env f w) = Returned (Some m)) \<and>
   (fst (load_migration env f w) = Escaped \<longleftrightarrow>
      (\<exists>d. unit_file env f (w_data w) = ExecExits d \<or>
           unit_file env f (w_data w) = InitExits d)) \<and>
   w_ledger (snd (load_migration env f w)) = w_ledger w \<and>
   (fst (load_migration env f w) = Returned None \<longrightarrow>
      apply_migration env f w = (Returned False, snd (load_migration env f w))) \<and>
   (fst (load_migration env (e_name t) w) = Returned None \<longrightarrow>
      rollback_record env t w = (Returned False, snd (load_migration env (e_name t) w))) \<and>
   (fst (load_migration env f w) = Escaped \<longrightarrow>
      apply_migration env f w = (Escaped, snd (load_migration env f w))) \<and>
   (fst (load_migration env (e_name t) w) = Escaped \<longrightarrow>
      rollback_record env t w = (Escaped, snd (load_migration env (e_name t) w)))"
proof -
  have r1: "fst (load_migration env (e_name t) w) = Returned None \<Longrightarrow>
      rollback_record env t w = (Returned False, snd (load_migration env (e_name t) w))"
    by (cases "load_migration env (e_name t) w") (simp add: rollback_record_def)
  have r2: "fst (load_migration env (e_name t) w) = Escaped \<Longrightarrow>
      rollback_record env t w = (Escaped, snd (load_migration env (e_name t) w))"
    by (cases "load_migration env (e_name t) w") (simp add: rollback_record_def)
  have l: "w_ledger (snd (load_migration env f w)) = w_ledger w"
    using load_migration_frame [of env f w] by (cases "load_migration env f w") simp
  have c: "(unit_file env f (w_data w) = NoSpec \<longrightarrow> fst (load_migration env f w) = Returned None) \<and>
   (\<forall>d. unit_file env f (w_data w) = ExecRaises d \<longrightarrow>
      fst (load_migration env f w) = Returned None) \<and>
   (\<forall>d. unit_file env f (w_data w) = NoClass d \<longrightarrow>
      fst (load_migration env f w) = Returned None) \<and>
   (\<forall>d. unit_file env f (w_data w) = InitRaises d \<longrightarrow>
      fst (load_migration env f w) = Returned None) \<and>
   (\<forall>m d. unit_file env f (w_data w) = Instance m d \<longrightarrow>
      fst (load_migration env f w) = Returned (Some m))"
    by (simp add: load_migration_def)
  have e: "fst (load_migration env f w) = Escaped \<longleftrightarrow>
      (\<exists>d. unit_file env f (w_data w) = ExecExits d \<or>
           unit_file env f (w_data w) = InitExits d)"
    by (cases "unit_file env f (w_data w)") (simp_all add: load_migration_def)
  have a1: "fst (load_migration env f w) = Returned None \<longrightarrow>
      apply_migration env f w = (Returned False, snd (load_migration env f w))"
    using apply_migration_load_None [of env f w] by (rule impI)
  have a2: "fst (load_migration env f w) = Escaped \<longrightarrow>
      apply_migration env f w = (Escaped, snd (load_migration env f w))"
    using apply_migration_load_Escaped [of env f w] by (rule impI)
  from r1 have r1': "fst (load_migration env (e_name t) w) = Returned None \<longrightarrow>
      rollback_record env t w = (Returned False, snd (load_migration env (e_name t) w))"
    by (rule impI)
  from r2 have r2': "fst (load_migration env (e_name t) w) = Escaped \<longrightarrow>
      rollback_record env t w = (Escaped, snd (load_migration env (e_name t) w))"
    by (rule impI)
  note c1 = c [THEN conjunct1]
  note c2 = c [THEN conjunct2, THEN conjunct1]
  note c3 = c [THEN conjunct2, THEN conjunct2, THEN conjunct1]
  note c4 = c [THEN conjunct2, THEN conjunct2, THEN conjunct2, THEN conjunct1]
  note c5 = c [THEN conjunct2, THEN conjunct2, THEN conjunct2, THEN conjunct2]
  show ?thesis
    by (intro conjI) (rule c1 c2 c3 c4 c5 e l a1 r1' a2 r2')+
qed

theorem load_migration_catches_Exception_witness:
  "unit_file ex_env ''notes.txt'' (w_data ex_world) = NoSpec \<and>
   fst (load_migration ex_env ''notes.txt'' ex_world) = Returned None \<and>
   apply_migration ex_env ''notes.txt'' ex_world =
     (Returned False, snd (load_migration ex_env ''notes.txt'' ex_world)) \<and>
   rollback_record ex_env
     \<lparr>e_version = ''notes'', e_name = ''notes.txt'', e_description = [],
      e_applied_at = ex_clock 0, d_id = 0\<rparr> ex_world =
     (Returned False, snd (load_migration ex_env ''notes.txt'' ex_world)) \<and>
   unit_file ex_env ''20250101000000_init.py'' (w_data ex_world) = Instance init_unit 0 \<and>
   fst (load_migration ex_env ''20250101000000_init.py'' ex_world) = Returned (Some init_unit) \<and>
   unit_file ex_env ''20250104000000_exit.py'' (w_data ex_world) = ExecExits 0 \<and>
   fst (load_migration ex_env ''20250104000000_exit.py'' ex_world) = Escaped \<and>
   apply_migration ex_env ''20250104000000_exit.py'' ex_world =
     (Escaped, snd (load_migration ex_env ''20250104000000_exit.py'' ex_world)) \<and>
   rollback_record ex_env
     \<lparr>e_version = ''20250104000000_exit'', e_name = ''20250104000000_exit.py'',
      e_description = ''exit'', e_applied_at = ex_clock 0, d_id = 0\<rparr> ex_world =
     (Escaped, snd (load_migration ex_env ''20250104000000_exit.py'' ex_world))"
proof -
  let ?nd = "\<lparr>e_version = ''notes'', e_name = ''notes.txt'', e_description = [],
      e_applied_at = ex_clock 0, d_id = 0\<rparr>"
  let ?xd = "\<lparr>e_version = ''20250104000000_exit'', e_name = ''20250104000000_exit.py'',
      e_description = ''exit'', e_applied_at = ex_clock 0, d_id = 0\<rparr>"
  have h1: "unit_file ex_env ''notes.txt'' (w_data ex_world) = NoSpec"
    by (simp add: ex_env_def)
  have h2: "unit_file ex_env ''20250101000000_init.py'' (w_data ex_world) = Instance init_unit 0"
    by (simp add: ex_env_def ex_world_def)
  have h3: "unit_file ex_env ''20250104000000_exit.py'' (w_data ex_world) = ExecExits 0"
    by (simp add: ex_env_def ex_world_def)
  have n1: "e_name ?nd = ''notes.txt''" by simp
  have n2: "e_name ?xd = ''20250104000000_exit.py''" by simp
  note T = load_migration_catches_Exception
  note k1 = T [THEN conjunct1]
  note k5 = T [THEN conjunct2, THEN conjunct2, THEN conjunct2, THEN conjunct2, THEN conjunct1]
  note k6 = T [THEN conjunct2, THEN conjunct2, THEN conjunct2, THEN conjunct2, THEN conjunct2,
      THEN conjunct1]
  note k8 = T [THEN conjunct2, THEN conjunct2, THEN conjunct2, THEN conjunct2, THEN conjunct2,
      THEN conjunct2, THEN conjunct2, THEN conjunct1]
  note k9 = T [THEN conjunct2, THEN conjunct2, THEN conjunct2, THEN conjunct2, THEN conjunct2,
      THEN conjunct2, THEN conjunct2, THEN conjunct2, THEN conjunct1]
  note k10 = T [THEN conjunct2, THEN conjunct2, THEN conjunct2, THEN conjunct2, THEN conjunct2,
      THEN conjunct2, THEN conjunct2, THEN conjunct2, THEN conjunct2, THEN conjunct1]
  note k11 = T [THEN conjunct2, THEN conjunct2, THEN conjunct2, THEN conjunct2, THEN conjunct2,
      THEN conjunct2, THEN conjunct2, THEN conjunct2, THEN conjunct2, THEN conjunct2]
  have 1: "fst (load_migration ex_env ''notes.txt'' ex_world) = Returned None"
    using k1 [of ex_env "''notes.txt''" ex_world] h1 by (rule mp)
  have 2: "apply_migration ex_env ''notes.txt'' ex_world =
     (Returned False, snd (load_migration ex_env ''notes.txt'' ex_world))"
    using k8 [of ex_env "''notes.txt''" ex_world] 1 by (rule mp)
  have 3: "rollback_record ex_env ?nd ex_world =
     (Returned False, snd (load_migration ex_env ''notes.txt'' ex_world))"
    using k9 [of ex_env ?nd ex_world] 1 unfolding n1 by (rule mp)
  have 4: "fst (load_migration ex_env ''20250101000000_init.py'' ex_world) =
      Returned (Some init_unit)"
    using k5 [of ex_env "''20250101000000_init.py''" ex_world] h2 by blast
  have 5: "fst (load_migration ex_env ''20250104000000_exit.py'' ex_world) = Escaped"
    using k6 [of ex_env "''20250104000000_exit.py''" ex_world] h3 by blast
  have 6: "apply_migration ex_env ''20250104000000_exit.py'' ex_world =
     (Escaped, snd (load_migration ex_env ''20250104000000_exit.py'' ex_world))"
    using k10 [of ex_env "''20250104000000_exit.py''" ex_world] 5 by (rule mp)
  have 7: "rollback_record ex_env ?xd ex_world =
     (Escaped, snd (load_migration ex_env ''20250104000000_exit.py'' ex_world))"
    using k11 [of ex_env ?xd ex_world] 5 unfolding n2 by (rule mp)
  show ?thesis
    by (intro conjI) (rule h1 1 2 3 h2 4 h3 5 6 7)+
qed

text \<open>
  Claim C7 as stated does not hold: the module \<open>20250104000000_exit.py\<close> calls \<open>sys.exit()\<close>
  when it is executed, \<open>SystemExit\<close> is not an \<open>Exception\<close>, and \<open>load_migration\<close> lets it
  through to \<open>apply_migration\<close>, which lets it through to its caller.
\<close>

theorem load_migration_escapes_counterexample:
  "unit_file ex_env ''20250104000000_exit.py'' (w_data ex_world) = ExecExits 0 \<and>
   fst (load_migration ex_env ''20250104000000_exit.py'' ex_world) = Escaped \<and>
   fst (load_migration ex_env ''20250104000000_exit.py'' ex_world) \<noteq> Returned None \<and>
   fst (apply_migration ex_env ''20250104000000_exit.py'' ex_world) = Escaped"
  by (simp add: apply_migration_def load_migration_def ex_env_def ex_world_def)

section \<open>Rolling back\<close>

lemma set_get_applied_migrations [simp]: "set (get_applied_migrations w) = set (w_ledger w)"
  by (simp add: get_applied_migrations_def)

lemma get_applied_migrations_Nil [simp]: "get_applied_migrations w = [] \<longleftrightarrow> w_ledger w = []"
  by (metis set_get_applied_migrations set_empty)

lemma last_sorted_is_max:
  fixes k :: "'a \<Rightarrow> 'b::linorder"
  assumes "sorted (map k xs)" "x \<in> set xs"
  shows "k x \<le> k (last xs)"
  using assms by (induction xs) (auto split: if_splits)

lemma last_applied_is_latest:
  assumes "w_ledger w \<noteq> []"
  shows "last (get_applied_migrations w) \<in> set (w_ledger w) \<and>
         (\<forall>m \<in> set (w_ledger w).
            dt_key (e_applied_at m) \<le> dt_key (e_applied_at (last (get_applied_migrations w))))"
proof -
  let ?k = "\<lambda>m::doc. dt_key (e_applied_at m)"
  have ne: "get_applied_migrations w \<noteq> []" using assms by simp
  have "sorted (map ?k (get_applied_migrations w))"
    unfolding get_applied_migrations_def by (rule sorted_sort_key)
  then have "\<forall>m \<in> set (get_applied_migrations w). ?k m \<le> ?k (last (get_applied_migrations w))"
    using last_sorted_is_max [of ?k] by blast
  moreover have "last (get_applied_migrations w) \<in> set (get_applied_migrations w)"
    using ne by (rule last_in_set)
  ultimately show ?thesis by simp
qed

lemma rollback_record_not_True:
  assumes "rollback_record env t w = (r, w')" "r \<noteq> Returned True"
  shows "w_ledger w' = w_ledger w"
proof (cases "load_migration env (e_name t) w")
  case (Pair l w1)
  note fr = load_migration_frame [OF Pair]
  show ?thesis
  proof (cases l)
    case Escaped
    with assms Pair fr show ?thesis by (simp add: rollback_record_def)
  next
    case (Returned o1)
    show ?thesis
    proof (cases o1)
      case None
      with assms Pair fr Returned show ?thesis by (simp add: rollback_record_def)
    next
      case (Some m)
      with assms Pair fr Returned show ?thesis
        by (auto simp: rollback_record_def Let_def split: if_splits run.splits)
    qed
  qed
qed

lemma rollback_record_True:
  assumes "rollback_record env t w = (Returned True, w')"
  shows "\<exists>m w1 d. load_migration env (e_name t) w = (Returned (Some m), w1) \<and> truthy m \<and>
           downgrade m (w_data w1) = Returns d \<and>
           w_ledger w' = delete_one (d_id t) (w_ledger w)"
proof (cases "load_migration env (e_name t) w")
  case (Pair l w1)
  note fr = load_migration_frame [OF Pair]
  show ?thesis
  proof (cases l)
    case Escaped
    with assms Pair show ?thesis by (simp add: rollback_record_def)
  next
    case (Returned o1)
    show ?thesis
    proof (cases o1)
      case None
      with assms Pair Returned show ?thesis by (simp add: rollback_record_def)
    next
      case (Some m)
      with assms Pair fr Returned show ?thesis
        by (auto simp: rollback_record_def Let_def split: if_splits run.splits)
    qed
  qed
qed

lemma rollback_migration_empty:
  "w_ledger w = [] \<Longrightarrow> rollback_migration env n w = (Returned False, py_print NothingToRollBack w)"
  by (simp add: rollback_migration_def)

lemma rollback_migration_latest:
  "w_ledger w \<noteq> [] \<Longrightarrow> n = None \<or> n = Some [] \<Longrightarrow>
   rollback_migration env n w = rollback_record env (last (get_applied_migrations w)) w"
  by (auto simp: rollback_migration_def)

lemma rollback_migration_absent:
  assumes "w_ledger w \<noteq> []" "s \<noteq> []" "s \<notin> e_name ` set (w_ledger w)"
  shows "rollback_migration env (Some s) w = (Returned False, py_print (MigrationNotFound s) w)"
proof -
  have "find (\<lambda>m. e_name m = s) (get_applied_migrations w) = None"
    using assms(3) by (auto simp: find_None_iff)
  with assms show ?thesis by (simp add: rollback_migration_def)
qed

lemma rollback_migration_named:
  assumes "s \<noteq> []" "s \<in> e_name ` set (w_ledger w)"
  shows "\<exists>t \<in> set (w_ledger w). e_name t = s \<and>
           rollback_migration env (Some s) w = rollback_record env t w"
proof -
  have ne: "w_ledger w \<noteq> []" using assms(2) by auto
  have "find (\<lambda>m. e_name m = s) (get_applied_migrations w) \<noteq> None"
    using assms(2) by (auto simp: find_None_iff)
  then obtain t where t: "find (\<lambda>m. e_name m = s) (get_applied_migrations w) = Some t" by blast
  then have "t \<in> set (w_ledger w) \<and> e_name t = s"
    by (auto simp: find_Some_iff) (metis nth_mem set_get_applied_migrations)
  with t ne assms(1) show ?thesis by (auto simp: rollback_migration_def)
qed

lemma rollback_migration_cases:
  "(w_ledger w = [] \<and> rollback_migration env n w = (Returned False, py_print NothingToRollBack w)) \<or>
   (\<exists>s. rollback_migration env n w = (Returned False, py_print (MigrationNotFound s) w)) \<or>
   (\<exists>t \<in> set (w_ledger w). rollback_migration env n w = rollback_record env t w)"
proof (cases "w_ledger w = []")
  case True
  then show ?thesis by (simp add: rollback_migration_empty)
next
  case ne: False
  show ?thesis
  proof (cases "n = None \<or> n = Some []")
    case True
    then show ?thesis
      using rollback_migration_latest [OF ne True, of env] last_applied_is_latest [OF ne] by auto
  next
    case False
    then obtain s where s: "n = Some s" "s \<noteq> []" by auto
    show ?thesis
    proof (cases "s \<in> e_name ` set (w_ledger w)")
      case True
      from rollback_migration_named [OF s(2) True, of env] s show ?thesis by auto
    next
      case False
      from rollback_migration_absent [OF ne s(2) False, of env] s show ?thesis by auto
    qed
  qed
qed

text \<open>
  Claim C4. With an empty ledger \<open>rollback_migration\<close> returns \<open>False\<close> having printed that
  nothing is there to revert, and nothing else of the state changes. With a ledger that
  is not empty, a name that is given (not empty) and absent from the ledger gives \<open>False\<close>
  and the not-found message, the state otherwise unchanged. With no name the record rolled
  back is one of the ledger whose time of application no other exceeds; with two entries
  \<open>A\<close> then \<open>B\<close>, \<open>B\<close> the later, it is \<open>B\<close>, and the name of \<open>A\<close> selects \<open>A\<close>. A given
  name that is in the ledger selects a record of that name. The empty string is no name:
  it is treated as \<open>None\<close> is.
\<close>

theorem rollback_target_selection:
  "(w_ledger w = [] \<longrightarrow>
      rollback_migration env n w = (Returned False, py_print NothingToRollBack w) \<and>
      w_ledger (snd (rollback_migration env n w)) = w_ledger w \<and>
      w_data (snd (rollback_migration env n w)) = w_data w) \<and>
   (w_ledger w \<noteq> [] \<and> s \<noteq> [] \<and> s \<notin> e_name ` set (w_ledger w) \<longrightarrow>
      rollback_migration env (Some s) w = (Returned False, py_print (MigrationNotFound s) w)) \<and>
   (w_ledger w \<noteq> [] \<longrightarrow>
      (\<exists>t \<in> set (w_ledger w).
         (\<forall>m \<in> set (w_ledger w). dt_key (e_applied_at m) \<le> dt_key (e_applied_at t)) \<and>
         rollback_migration env None w = rollback_record env t w)) \<and>
   (w_ledger w = [A, B] \<and> dt_key (e_applied_at A) < dt_key (e_applied_at B) \<longrightarrow>
      rollback_migration env None w = rollback_record env B w \<and>
      (e_name A \<noteq> [] \<longrightarrow> rollback_migration env (Some (e_name A)) w = rollback_record env A w)) \<and>
   (s \<noteq> [] \<and> s \<in> e_name ` set (w_ledger w) \<longrightarrow>
      (\<exists>t \<in> set (w_ledger w). e_name t = s \<and>
         rollback_migration env (Some s) w = rollback_record env t w)) \<and>
   rollback_migration env (Some []) w = rollback_migration env None w"
proof -
  have blank: "rollback_migration env (Some []) w = rollback_migration env None w"
    by (simp add: rollback_migration_def Let_def)
  have two: "rollback_migration env None w = rollback_record env B w \<and>
      (e_name A \<noteq> [] \<longrightarrow> rollback_migration env (Some (e_name A)) w = rollback_record env A w)"
    if "w_ledger w = [A, B]" "dt_key (e_applied_at A) < dt_key (e_applied_at B)"
  proof -
    have "get_applied_migrations w = [A, B]"
      using that by (simp add: get_applied_migrations_def)
    then show ?thesis by (simp add: rollback_migration_def)
  qed
  have latest: "\<exists>t \<in> set (w_ledger w).
         (\<forall>m \<in> set (w_ledger w). dt_key (e_applied_at m) \<le> dt_key (e_applied_at t)) \<and>
         rollback_migration env None w = rollback_record env t w"
    if "w_ledger w \<noteq> []"
    using rollback_migration_latest [OF that, of None env] last_applied_is_latest [OF that]
    by auto
  have empty: "rollback_migration env n w = (Returned False, py_print NothingToRollBack w) \<and>
      w_ledger (snd (rollback_migration env n w)) = w_ledger w \<and>
      w_data (snd (rollback_migration env n w)) = w_data w"
    if "w_ledger w = []"
    using rollback_migration_empty [OF that, of env n] by simp
  show ?thesis
    using two latest empty blank rollback_migration_absent [of w s env]
      rollback_migration_named [of s w env]
    by blast
qed

theorem rollback_target_selection_witness:
  "w_ledger ex_world = [] \<and>
   rollback_migration ex_env None ex_world = (Returned False, py_print NothingToRollBack ex_world) \<and>
   w_ledger ex_applied \<noteq> [] \<and> ''20250103000000_gone.py'' \<noteq> [] \<and>
   ''20250103000000_gone.py'' \<notin> e_name ` set (w_ledger ex_applied) \<and>
   rollback_migration ex_env (Some ''20250103000000_gone.py'') ex_applied =
     (Returned False, py_print (MigrationNotFound ''20250103000000_gone.py'') ex_applied) \<and>
   (\<exists>t \<in> set (w_ledger ex_applied).
      (\<forall>m \<in> set (w_ledger ex_applied). dt_key (e_applied_at m) \<le> dt_key (e_applied_at t)) \<and>
      rollback_migration ex_env None ex_applied = rollback_record ex_env t ex_applied) \<and>
   w_ledger ex_applied = [init_doc, add_index_doc] \<and>
   dt_key (e_applied_at init_doc) < dt_key (e_applied_at add_index_doc) \<and>
   rollback_migration ex_env None ex_applied = rollback_record ex_env add_index_doc ex_applied \<and>
   e_name init_doc \<noteq> [] \<and>
   rollback_migration ex_env (Some (e_name init_doc)) ex_applied =
     rollback_record ex_env init_doc ex_applied \<and>
   ''20250101000000_init.py'' \<in> e_name ` set (w_ledger ex_applied) \<and>
   (\<exists>t \<in> set (w_ledger ex_applied). e_name t = ''20250101000000_init.py'' \<and>
      rollback_migration ex_env (Some ''20250101000000_init.py'') ex_applied =
        rollback_record ex_env t ex_applied)"
proof -
  have h1: "w_ledger ex_world = []" by (simp add: ex_world_def)
  have h2: "w_ledger ex_applied \<noteq> []" by (simp add: ex_applied_def)
  have h3: "''20250103000000_gone.py'' \<noteq> []" by simp
  have h4: "''20250103000000_gone.py'' \<notin> e_name ` set (w_ledger ex_applied)"
    by (simp add: ex_applied_def init_doc_def add_index_doc_def)
  have h5: "w_ledger ex_applied = [init_doc, add_index_doc]" by (simp add: ex_applied_def)
  have h6: "dt_key (e_applied_at init_doc) < dt_key (e_applied_at add_index_doc)"
    by (simp add: dt_key_def init_doc_def add_index_doc_def ex_clock_def)
  have h7: "e_name init_doc \<noteq> []" by (simp add: init_doc_def)
  have h8: "''20250101000000_init.py'' \<in> e_name ` set (w_ledger ex_applied)"
    by (simp add: ex_applied_def init_doc_def)
  note a = rollback_target_selection [of ex_world ex_env None "''x''" init_doc init_doc]
  note b = rollback_target_selection
    [of ex_applied ex_env None "''20250103000000_gone.py''" init_doc add_index_doc]
  note c = rollback_target_selection
    [of ex_applied ex_env None "''20250101000000_init.py''" init_doc add_index_doc]
  from a h1 have 1: "rollback_migration ex_env None ex_world =
      (Returned False, py_print NothingToRollBack ex_world)" by blast
  from b h2 h3 h4 have 2: "rollback_migration ex_env (Some ''20250103000000_gone.py'') ex_applied =
     (Returned False, py_print (MigrationNotFound ''20250103000000_gone.py'') ex_applied)" by blast
  from b h2 have 3: "\<exists>t \<in> set (w_ledger ex_applied).
      (\<forall>m \<in> set (w_ledger ex_applied). dt_key (e_applied_at m) \<le> dt_key (e_applied_at t)) \<and>
      rollback_migration ex_env None ex_applied = rollback_record ex_env t ex_applied" by blast
  from b h5 h6 h7 have 4: "rollback_migration ex_env None ex_applied =
      rollback_record ex_env add_index_doc ex_applied"
    "rollback_migration ex_env (Some (e_name init_doc)) ex_applied =
     rollback_record ex_env init_doc ex_applied" by blast+
  from c h8 have 5: "\<exists>t \<in> set (w_ledger ex_applied). e_name t = ''20250101000000_init.py'' \<and>
      rollback_migration ex_env (Some ''20250101000000_init.py'') ex_applied =
        rollback_record ex_env t ex_applied" by blast
  show ?thesis using h1 h2 h3 h4 h5 h6 h7 h8 1 2 3 4 5 by blast
qed

lemma delete_one_remove1:
  "distinct (map d_id L) \<Longrightarrow> t \<in> set L \<Longrightarrow> delete_one (d_id t) L = remove1 t L"
  by (induction L) (auto simp: image_iff)

text \<open>
  Claim C6. Whatever record is chosen, when the \<open>downgrade\<close> of its unit raises the
  rollback returns \<open>False\<close> and the ledger is as it was. A rollback that does not return
  \<open>True\<close>, whether it returns \<open>False\<close> or an exception outside class \<open>Exception\<close> escapes
  it, never changes the ledger. One that returns \<open>True\<close> loaded the unit of a record of the
  ledger, its \<open>downgrade\<close> returned, and the ledger afterwards is the old one after
  \<open>delete_one\<close> by that record's \<open>_id\<close>; identities being distinct, this removes that
  record and no other.
\<close>

theorem rollback_failure_keeps_entry:
  "(\<forall>m w1 d. load_migration env (e_name t) w = (Returned (Some m), w1) \<and>
        downgrade m (w_data w1) = Raises d \<longrightarrow>
      fst (rollback_record env t w) = Returned False \<and>
      w_ledger (snd (rollback_record env t w)) = w_ledger w) \<and>
   (fst (rollback_migration env n w) = Returned False \<longrightarrow>
      w_ledger (snd (rollback_migration env n w)) = w_ledger w) \<and>
   (fst (rollback_migration env n w) = Returned True \<longrightarrow>
      (\<exists>r \<in> set (w_ledger w). \<exists>m w1 d.
         rollback_migration env n w = rollback_record env r w \<and>
         load_migration env (e_name r) w = (Returned (Some m), w1) \<and>
         downgrade m (w_data w1) = Returns d \<and>
         w_ledger (snd (rollback_migration env n w)) = delete_one (d_id r) (w_ledger w))) \<and>
   (distinct (map d_id L) \<and> t \<in> set L \<longrightarrow>
      delete_one (d_id t) L = remove1 t L \<and> t \<notin> set (delete_one (d_id t) L)) \<and>
   (fst (rollback_migration env n w) = Escaped \<longrightarrow>
      w_ledger (snd (rollback_migration env n w)) = w_ledger w)"
proof -
  have 1: "fst (rollback_record env t w) = Returned False \<and>
      w_ledger (snd (rollback_record env t w)) = w_ledger w"
    if "load_migration env (e_name t) w = (Returned (Some m), w1)"
      "downgrade m (w_data w1) = Raises d"
    for m w1 d
    using that load_migration_frame [OF that(1)]
    by (simp add: rollback_record_def Let_def)
  obtain b w' where r: "rollback_migration env n w = (b, w')"
    by (cases "rollback_migration env n w")
  have 2: "w_ledger w' = w_ledger w" if "b \<noteq> Returned True"
    using rollback_migration_cases [of w env n] r that rollback_record_not_True [of env _ w b w']
    by auto
  have 3: "\<exists>r \<in> set (w_ledger w). \<exists>m w1 d.
         rollback_migration env n w = rollback_record env r w \<and>
         load_migration env (e_name r) w = (Returned (Some m), w1) \<and>
         downgrade m (w_data w1) = Returns d \<and>
         w_ledger w' = delete_one (d_id r) (w_ledger w)" if "b = Returned True"
  proof -
    from rollback_migration_cases [of w env n] r that
    obtain t0 where t0: "t0 \<in> set (w_ledger w)" "rollback_record env t0 w = (Returned True, w')"
      "rollback_migration env n w = rollback_record env t0 w"
      by auto
    from rollback_record_True [OF t0(2)] t0(1,3) show ?thesis by blast
  qed
  have 4: "delete_one (d_id t) L = remove1 t L \<and> t \<notin> set (delete_one (d_id t) L)"
    if "distinct (map d_id L)" "t \<in> set L"
    using that delete_one_remove1 [OF that] by (simp add: distinct_map)
  show ?thesis
  proof (cases "b = Returned True")
    case True
    with 1 3 4 r show ?thesis by auto
  next
    case False
    with 1 2 4 r show ?thesis by auto
  qed
qed

theorem rollback_failure_keeps_entry_witness:
  "load_migration ex_env (e_name add_index_doc) ex_applied =
     (Returned (Some add_index_unit), ex_applied) \<and>
   downgrade add_index_unit (w_data ex_applied) = Raises 3 \<and>
   fst (rollback_record ex_env add_index_doc ex_applied) = Returned False \<and>
   w_ledger (snd (rollback_record ex_env add_index_doc ex_applied)) = w_ledger ex_applied \<and>
   fst (rollback_migration ex_env None ex_applied) = Returned False \<and>
   w_ledger (snd (rollback_migration ex_env None ex_applied)) = w_ledger ex_applied \<and>
   fst (rollback_migration ex_env (Some ''20250101000000_init.py'') ex_applied) = Returned True \<and>
   w_ledger (snd (rollback_migration ex_env (Some ''20250101000000_init.py'') ex_applied)) =
     [add_index_doc] \<and>
   (\<exists>r \<in> set (w_ledger ex_applied). \<exists>m w1 d.
      rollback_migration ex_env (Some ''20250101000000_init.py'') ex_applied =
        rollback_record ex_env r ex_applied \<and>
      load_migration ex_env (e_name r) ex_applied = (Returned (Some m), w1) \<and>
      downgrade m (w_data w1) = Returns d \<and>
      w_ledger (snd (rollback_migration ex_env (Some ''20250101000000_init.py'') ex_applied)) =
        delete_one (d_id r) (w_ledger ex_applied)) \<and>
   distinct (map d_id (w_ledger ex_applied)) \<and> init_doc \<in> set (w_ledger ex_applied) \<and>
   delete_one (d_id init_doc) (w_ledger ex_applied) = remove1 init_doc (w_ledger ex_applied) \<and>
   init_doc \<notin> set (delete_one (d_id init_doc) (w_ledger ex_applied)) \<and>
   fst (rollback_migration ex_env None ex_interrupted) = Escaped \<and>
   w_ledger (snd (rollback_migration ex_env None ex_interrupted)) = w_ledger ex_interrupted"
proof -
  have h1: "load_migration ex_env (e_name add_index_doc) ex_applied =
      (Returned (Some add_index_unit), ex_applied)"
    by (simp add: load_migration_def ex_env_def ex_applied_def add_index_doc_def)
  have h2: "downgrade add_index_unit (w_data ex_applied) = Raises 3"
    by (simp add: add_index_unit_def ex_applied_def)
  have h3: "fst (rollback_migration ex_env None ex_applied) = Returned False" by code_simp
  have h4: "fst (rollback_migration ex_env (Some ''20250101000000_init.py'') ex_applied) =
      Returned True"
    by code_simp
  have h5: "distinct (map d_id (w_ledger ex_applied))"
    by (simp add: ex_applied_def init_doc_def add_index_doc_def)
  have h6: "init_doc \<in> set (w_ledger ex_applied)" by (simp add: ex_applied_def)
  have h7: "fst (rollback_migration ex_env None ex_interrupted) = Escaped" by code_simp
  have v: "w_ledger (snd (rollback_migration ex_env (Some ''20250101000000_init.py'') ex_applied)) =
     [add_index_doc]" by code_simp
  note a = rollback_failure_keeps_entry
    [of ex_env add_index_doc ex_applied None "w_ledger ex_applied"]
  note b = rollback_failure_keeps_entry
    [of ex_env init_doc ex_applied "Some ''20250101000000_init.py''" "w_ledger ex_applied"]
  note c = rollback_failure_keeps_entry
    [of ex_env init_doc ex_interrupted None "w_ledger ex_applied"]
  from a h1 h2 have 1: "fst (rollback_record ex_env add_index_doc ex_applied) = Returned False"
    "w_ledger (snd (rollback_record ex_env add_index_doc ex_applied)) = w_ledger ex_applied"
    by blast+
  from a h3 have 2: "w_ledger (snd (rollback_migration ex_env None ex_applied)) =
      w_ledger ex_applied" by blast
  from b h4 have 3: "\<exists>r \<in> set (w_ledger ex_applied). \<exists>m w1 d.
      rollback_migration ex_env (Some ''20250101000000_init.py'') ex_applied =
        rollback_record ex_env r ex_applied \<and>
      load_migration ex_env (e_name r) ex_applied = (Returned (Some m), w1) \<and>
      downgrade m (w_data w1) = Returns d \<and>
      w_ledger (snd (rollback_migration ex_env (Some ''20250101000000_init.py'') ex_applied)) =
        delete_one (d_id r) (w_ledger ex_applied)" by blast
  from b h5 h6 have 4:
    "delete_one (d_id init_doc) (w_ledger ex_applied) = remove1 init_doc (w_ledger ex_applied)"
    "init_doc \<notin> set (delete_one (d_id init_doc) (w_ledger ex_applied))" by blast+
  from c h7 have 5: "w_ledger (snd (rollback_migration ex_env None ex_interrupted)) =
      w_ledger ex_interrupted" by blast
  show ?thesis using h1 h2 h3 h4 h5 h6 h7 v 1 2 3 4 5 by blast
qed

section \<open>Running the pending migrations\<close>

lemma distinct_get_migration_files:
  assumes "wf_dir md"
  shows "distinct (get_migration_files md)"
proof (cases md)
  case None
  then show ?thesis by (simp add: get_migration_files_def)
next
  case (Some es)
  with assms have "distinct (map f_name es)" by (simp add: wf_dir_def)
  then have "distinct (map f_name (filter is_migration_file es))"
    by (rule distinct_map_filter)
  with Some show ?thesis by (simp add: get_migration_files_def)
qed

lemma get_pending_migrations_eq:
  "get_pending_migrations md w =
     filter (\<lambda>m. m \<notin> e_name ` set (w_ledger w)) (get_migration_files md)"
  by (simp add: get_pending_migrations_def)

lemma filter_notin_prefix:
  "set a \<inter> set b = {} \<Longrightarrow> filter (\<lambda>x. x \<notin> set a) (a @ b) = b"
  by (auto simp: filter_empty_conv filter_id_conv)

lemma filter_notin_take:
  assumes "distinct xs"
  shows "filter (\<lambda>x. x \<notin> set (take k xs)) xs = drop k xs"
proof -
  have "distinct (take k xs @ drop k xs)" using assms by simp
  then have "set (take k xs) \<inter> set (drop k xs) = {}" by (simp only: distinct_append)
  from filter_notin_prefix [OF this] show ?thesis by simp
qed

lemma apply_each_ledger:
  assumes "apply_each env fs w = (x, w')"
  shows "\<exists>j \<le> length fs. map e_name (w_ledger w') = map e_name (w_ledger w) @ take j fs \<and>
           (x = Done \<longrightarrow> j = length fs) \<and>
           (x = Aborted \<longrightarrow>
              j < length fs \<and> (\<exists>w0. apply_migration env (fs ! j) w0 = (Returned False, w')))"
  using assms
proof (induction fs arbitrary: w)
  case Nil
  then show ?case by simp
next
  case (Cons f fs)
  obtain b w1 where a: "apply_migration env f w = (b, w1)" by (cases "apply_migration env f w")
  show ?case
  proof (cases "b = Returned True")
    case True
    with a Cons.prems have "apply_each env fs w1 = (x, w')" by simp
    from Cons.IH [OF this] obtain j where j: "j \<le> length fs"
      "map e_name (w_ledger w') = map e_name (w_ledger w1) @ take j fs"
      "x = Done \<longrightarrow> j = length fs"
      "x = Aborted \<longrightarrow>
         j < length fs \<and> (\<exists>w0. apply_migration env (fs ! j) w0 = (Returned False, w'))"
      by blast
    from apply_migration_True [of env f w w1] a True
    have "map e_name (w_ledger w1) = map e_name (w_ledger w) @ [f]" by auto
    with j have "Suc j \<le> length (f # fs) \<and>
        map e_name (w_ledger w') = map e_name (w_ledger w) @ take (Suc j) (f # fs) \<and>
        (x = Done \<longrightarrow> Suc j = length (f # fs)) \<and>
        (x = Aborted \<longrightarrow>
           Suc j < length (f # fs) \<and>
           (\<exists>w0. apply_migration env ((f # fs) ! Suc j) w0 = (Returned False, w')))"
      by simp
    then show ?thesis by blast
  next
    case False
    then have b: "b = Returned False \<or> b = Escaped"
      by (cases b) auto
    with a Cons.prems have x: "x \<noteq> Done" "w' = w1" "x = Aborted \<longrightarrow> b = Returned False"
      by auto
    from apply_migration_not_True [OF a False] have "w_ledger w1 = w_ledger w" by simp
    with x a have "0 \<le> length (f # fs) \<and>
        map e_name (w_ledger w') = map e_name (w_ledger w) @ take 0 (f # fs) \<and>
        (x = Done \<longrightarrow> 0 = length (f # fs)) \<and>
        (x = Aborted \<longrightarrow>
           0 < length (f # fs) \<and>
           (\<exists>w0. apply_migration env ((f # fs) ! 0) w0 = (Returned False, w')))"
      by auto
    then show ?thesis by blast
  qed
qed

lemma migrate_ledger:
  "\<exists>j \<le> length (get_pending_migrations md w).
     map e_name (w_ledger (snd (migrate env md w))) =
       map e_name (w_ledger w) @ take j (get_pending_migrations md w) \<and>
     (fst (migrate env md w) = Done \<longrightarrow> j = length (get_pending_migrations md w)) \<and>
     (fst (migrate env md w) = Aborted \<longrightarrow>
        j < length (get_pending_migrations md w) \<and>
        (\<exists>w0. apply_migration env (get_pending_migrations md w ! j) w0 =
               (Returned False, snd (migrate env md w))))"
proof (cases "get_pending_migrations md w = []")
  case True
  then show ?thesis by (simp add: migrate_def)
next
  case False
  obtain x w' where a: "apply_each env (get_pending_migrations md w) w = (x, w')"
    by (cases "apply_each env (get_pending_migrations md w) w")
  with False have "migrate env md w = (x, w')" by (simp add: migrate_def)
  with apply_each_ledger [OF a] show ?thesis by simp
qed

lemma pending_after_prefix:
  assumes "wf_dir md"
    and "map e_name (w_ledger w') =
           map e_name (w_ledger w) @ take j (get_pending_migrations md w)"
  shows "get_pending_migrations md w' = drop j (get_pending_migrations md w)"
proof -
  let ?F = "get_migration_files md"
  let ?N = "e_name ` set (w_ledger w)"
  let ?P = "get_pending_migrations md w"
  have d: "distinct ?P"
    using distinct_get_migration_files [OF assms(1)] by (simp add: get_pending_migrations_eq)
  have "e_name ` set (w_ledger w') = set (map e_name (w_ledger w'))" by simp
  also have "\<dots> = ?N \<union> set (take j ?P)" unfolding assms(2) by simp
  finally have n: "e_name ` set (w_ledger w') = ?N \<union> set (take j ?P)" .
  have "get_pending_migrations md w' =
      filter (\<lambda>m. m \<notin> set (take j ?P)) (filter (\<lambda>m. m \<notin> ?N) ?F)"
    unfolding get_pending_migrations_eq n by (simp add: conj_commute)
  also have "\<dots> = filter (\<lambda>m. m \<notin> set (take j ?P)) ?P"
    by (simp only: get_pending_migrations_eq)
  also have "\<dots> = drop j ?P" using d by (rule filter_notin_take)
  finally show ?thesis .
qed

text \<open>
  Claim C1. In a directory that lists no name twice, when the names in the ledger are
  those of the first \<open>k\<close> units of the ordered sequence, then after the \<open>migrate\<close> command,
  whether it finished or aborted, the names in the ledger are those of the first \<open>K\<close>
  units for some \<open>K\<close>; when it finished, all units are applied.
\<close>

theorem migrate_prefix_consistent:
  assumes "wf_dir md"
    and "e_name ` set (w_ledger w) = set (take k (get_migration_files md))"
  shows "\<exists>K \<le> length (get_migration_files md).
           e_name ` set (w_ledger (snd (migrate env md w))) =
             set (take K (get_migration_files md)) \<and>
           (fst (migrate env md w) = Done \<longrightarrow> K = length (get_migration_files md))"
proof -
  let ?F = "get_migration_files md"
  let ?k = "min k (length ?F)"
  have tk: "take ?k ?F = take k ?F" by (simp add: min_def)
  have p: "get_pending_migrations md w = drop ?k ?F"
    using filter_notin_take [OF distinct_get_migration_files [OF assms(1)], of ?k] assms(2) tk
    by (simp add: get_pending_migrations_eq)
  from migrate_ledger [of md w env] obtain j where j: "j \<le> length (drop ?k ?F)"
    "map e_name (w_ledger (snd (migrate env md w))) = map e_name (w_ledger w) @ take j (drop ?k ?F)"
    "fst (migrate env md w) = Done \<longrightarrow> j = length (drop ?k ?F)"
    unfolding p by blast
  have "e_name ` set (w_ledger (snd (migrate env md w))) =
      set (map e_name (w_ledger (snd (migrate env md w))))" by simp
  also have "\<dots> = set (take ?k ?F) \<union> set (take j (drop ?k ?F))"
    unfolding j(2) using assms(2) tk by simp
  also have "\<dots> = set (take (?k + j) ?F)"
    by (simp add: take_add)
  finally have "e_name ` set (w_ledger (snd (migrate env md w))) = set (take (?k + j) ?F)" .
  moreover have "?k + j \<le> length ?F" using j(1) by simp
  moreover have "fst (migrate env md w) = Done \<longrightarrow> ?k + j = length ?F" using j(3) by auto
  ultimately show ?thesis by blast
qed

theorem migrate_prefix_consistent_witness:
  "wf_dir ex_dir \<and>
   e_name ` set (w_ledger ex_world) = set (take 0 (get_migration_files ex_dir)) \<and>
   (\<exists>K \<le> length (get_migration_files ex_dir).
      e_name ` set (w_ledger (snd (migrate ex_env ex_dir ex_world))) =
        set (take K (get_migration_files ex_dir)) \<and>
      (fst (migrate ex_env ex_dir ex_world) = Done \<longrightarrow> K = length (get_migration_files ex_dir))) \<and>
   map e_name (w_ledger (snd (migrate ex_env ex_dir ex_world))) = [''20250101000000_init.py''] \<and>
   get_migration_files ex_dir = [''20250101000000_init.py'', ''20250102000000_add_index.py'']"
proof -
  have h1: "wf_dir ex_dir" by (simp add: wf_dir_def ex_dir_def ex_entries_def)
  have h2: "e_name ` set (w_ledger ex_world) = set (take 0 (get_migration_files ex_dir))"
    by (simp add: ex_world_def)
  have v1: "map e_name (w_ledger (snd (migrate ex_env ex_dir ex_world))) =
      [''20250101000000_init.py'']" by code_simp
  have v2: "get_migration_files ex_dir =
      [''20250101000000_init.py'', ''20250102000000_add_index.py'']" by code_simp
  from h1 h2 migrate_prefix_consistent [OF h1 h2, of ex_env] v1 v2 show ?thesis by blast
qed

text \<open>
  Claim C5, as the code has it. When a run of \<open>migrate\<close> finishes without aborting, nothing
  is pending afterwards and an immediate second run leaves the whole state as it is: no
  ledger write, no operation executed, nothing printed. When the run aborted, in a
  directory that lists no name twice, the unit whose \<open>apply_migration\<close> returned \<open>False\<close>
  is the first that is pending afterwards, and the second run starts by applying it again.
\<close>

theorem migrate_rerun:
  "(fst (migrate env md w) = Done \<longrightarrow>
      get_pending_migrations md (snd (migrate env md w)) = [] \<and>
      migrate env md (snd (migrate env md w)) = (Done, snd (migrate env md w))) \<and>
   (wf_dir md \<and> fst (migrate env md w) = Aborted \<longrightarrow>
      (\<exists>f rest w0.
         f \<in> set (get_pending_migrations md w) \<and>
         apply_migration env f w0 = (Returned False, snd (migrate env md w)) \<and>
         get_pending_migrations md (snd (migrate env md w)) = f # rest \<and>
         migrate env md (snd (migrate env md w)) =
           apply_each env (f # rest) (snd (migrate env md w))))"
proof -
  let ?w = "snd (migrate env md w)"
  let ?P = "get_pending_migrations md w"
  have finished: "get_pending_migrations md ?w = [] \<and> migrate env md ?w = (Done, ?w)"
    if "fst (migrate env md w) = Done"
  proof -
    from migrate_ledger [of md w env] that
    have "map e_name (w_ledger ?w) = map e_name (w_ledger w) @ ?P"
      by auto
    then have "e_name ` set (w_ledger ?w) = e_name ` set (w_ledger w) \<union> set ?P"
      by (metis set_append set_map)
    then have "set (get_migration_files md) \<subseteq> e_name ` set (w_ledger ?w)"
      by (auto simp: get_pending_migrations_eq)
    then have "get_pending_migrations md ?w = []"
      by (auto simp: get_pending_migrations_eq filter_empty_conv)
    then show ?thesis by (simp add: migrate_def)
  qed
  have aborted: "\<exists>f rest w0.
         f \<in> set ?P \<and> apply_migration env f w0 = (Returned False, ?w) \<and>
         get_pending_migrations md ?w = f # rest \<and>
         migrate env md ?w = apply_each env (f # rest) ?w"
    if "wf_dir md" "fst (migrate env md w) = Aborted"
  proof -
    from migrate_ledger [of md w env] that(2) obtain j w0 where j: "j < length ?P"
      "map e_name (w_ledger ?w) = map e_name (w_ledger w) @ take j ?P"
      "apply_migration env (?P ! j) w0 = (Returned False, ?w)"
      by auto
    from pending_after_prefix [OF that(1) j(2)]
    have p: "get_pending_migrations md ?w = ?P ! j # drop (Suc j) ?P"
      using j(1) by (simp add: Cons_nth_drop_Suc)
    then have "migrate env md ?w = apply_each env (?P ! j # drop (Suc j) ?P) ?w"
      by (simp add: migrate_def)
    moreover have "?P ! j \<in> set ?P" using j(1) by simp
    ultimately show ?thesis using j(3) p by blast
  qed
  show ?thesis using finished aborted by blast
qed

theorem migrate_rerun_witness:
  "fst (migrate ex_env ex_dir (snd (migrate ex_env ex_dir ex_world))) = Done \<and>
   get_pending_migrations ex_dir
     (snd (migrate ex_env ex_dir (snd (migrate ex_env ex_dir ex_world)))) = [] \<and>
   migrate ex_env ex_dir (snd (migrate ex_env ex_dir (snd (migrate ex_env ex_dir ex_world)))) =
     (Done, snd (migrate ex_env ex_dir (snd (migrate ex_env ex_dir ex_world)))) \<and>
   wf_dir ex_dir \<and> fst (migrate ex_env ex_dir ex_world) = Aborted \<and>
   (\<exists>f rest w0.
      f \<in> set (get_pending_migrations ex_dir ex_world) \<and>
      apply_migration ex_env f w0 = (Returned False, snd (migrate ex_env ex_dir ex_world)) \<and>
      get_pending_migrations ex_dir (snd (migrate ex_env ex_dir ex_world)) = f # rest \<and>
      migrate ex_env ex_dir (snd (migrate ex_env ex_dir ex_world)) =
        apply_each ex_env (f # rest) (snd (migrate ex_env ex_dir ex_world))) \<and>
   get_pending_migrations ex_dir (snd (migrate ex_env ex_dir ex_world)) =
     [''20250102000000_add_index.py'']"
proof -
  have h1: "fst (migrate ex_env ex_dir (snd (migrate ex_env ex_dir ex_world))) = Done"
    by code_simp
  have h2: "wf_dir ex_dir" by (simp add: wf_dir_def ex_dir_def ex_entries_def)
  have h3: "fst (migrate ex_env ex_dir ex_world) = Aborted" by code_simp
  have v: "get_pending_migrations ex_dir (snd (migrate ex_env ex_dir ex_world)) =
     [''20250102000000_add_index.py'']" by code_simp
  note a = migrate_rerun [of ex_env ex_dir "snd (migrate ex_env ex_dir ex_world)"]
  note b = migrate_rerun [of ex_env ex_dir ex_world]
  note 1 = a [THEN conjunct1, THEN mp, OF h1]
  note 2 = b [THEN conjunct2, THEN mp, OF conjI [OF h2 h3]]
  show ?thesis
    apply (intro conjI)
          apply (rule h1)
         apply (rule 1 [THEN conjunct1])
        apply (rule 1 [THEN conjunct2])
       apply (rule h2)
      apply (rule h3)
     apply (rule 2)
    apply (rule v)
    done
qed

text \<open>
  Claim C5 as stated does not hold after a run that aborted: the unit that failed is
  still pending and the second run executes its \<open>upgrade\<close> again, here with success, so
  that the second run writes a ledger entry.
\<close>

theorem migrate_rerun_counterexample:
  "fst (migrate ex_env ex_dir ex_world) = Aborted \<and>
   length (w_ledger (snd (migrate ex_env ex_dir ex_world))) = 1 \<and>
   length (w_ledger (snd (migrate ex_env ex_dir (snd (migrate ex_env ex_dir ex_world))))) = 2 \<and>
   w_log (snd (migrate ex_env ex_dir (snd (migrate ex_env ex_dir ex_world)))) =
     w_log (snd (migrate ex_env ex_dir ex_world)) @ [RunUpgrade ''20250102000000_add_index.py'']"
  by code_simp

section \<open>Status\<close>

lemma length_filter_in_le:
  assumes "distinct F"
  shows "length (filter (\<lambda>m. m \<in> e_name ` set L) F) \<le> length L"
proof -
  have "length (filter (\<lambda>m. m \<in> e_name ` set L) F) = card (set (filter (\<lambda>m. m \<in> e_name ` set L) F))"
    using assms by (metis distinct_card distinct_filter)
  also have "\<dots> \<le> card (e_name ` set L)"
    by (rule card_mono) auto
  also have "\<dots> \<le> card (set L)" by (rule card_image_le) simp
  also have "\<dots> \<le> length L" by (rule card_length)
  finally show ?thesis .
qed

lemma length_filter_in_less:
  assumes "distinct F" "x \<in> set L" "e_name x \<notin> set F"
  shows "length (filter (\<lambda>m. m \<in> e_name ` set L) F) < length L"
proof -
  have "length (filter (\<lambda>m. m \<in> e_name ` set L) F) = card (set (filter (\<lambda>m. m \<in> e_name ` set L) F))"
    using assms(1) by (metis distinct_card distinct_filter)
  also have "\<dots> < card (e_name ` set L)"
    by (rule psubset_card_mono) (use assms in auto)
  also have "\<dots> \<le> card (set L)" by (rule card_image_le) simp
  also have "\<dots> \<le> length L" by (rule card_length)
  finally show ?thesis .
qed

lemma length_filter_in_eq:
  assumes "distinct F" "distinct (map e_name L)" "e_name ` set L \<subseteq> set F"
  shows "length (filter (\<lambda>m. m \<in> e_name ` set L) F) = length L"
proof -
  have "set (filter (\<lambda>m. m \<in> e_name ` set L) F) = e_name ` set L" using assms(3) by auto
  then have "length (filter (\<lambda>m. m \<in> e_name ` set L) F) = card (e_name ` set L)"
    using assms(1) by (metis distinct_card distinct_filter)
  also have "\<dots> = length L" using assms(2) by (metis distinct_card length_map set_map)
  finally show ?thesis .
qed

text \<open>
  Claim C9. \<open>get_status\<close> reports the number of discovered files, the number of ledger
  entries, and the files whose name has no ledger entry, with their number. In a directory
  that lists no name twice, applied plus pending is at least the total; it equals the
  total only when every ledger entry names a file of the directory (and it does when,
  moreover, no two ledger entries share a name); an entry whose file is absent makes it
  exceed the total, and the name of such an entry is not among the pending names.
\<close>

theorem get_status_counts:
  "st_total (get_status md w) = length (get_migration_files md) \<and>
   st_applied (get_status md w) = length (w_ledger w) \<and>
   st_pending_migrations (get_status md w) =
     filter (\<lambda>m. m \<notin> e_name ` set (w_ledger w)) (get_migration_files md) \<and>
   st_pending (get_status md w) = length (st_pending_migrations (get_status md w)) \<and>
   (wf_dir md \<longrightarrow>
      st_total (get_status md w) \<le> st_applied (get_status md w) + st_pending (get_status md w) \<and>
      (st_applied (get_status md w) + st_pending (get_status md w) = st_total (get_status md w)
         \<longrightarrow> e_name ` set (w_ledger w) \<subseteq> set (get_migration_files md)) \<and>
      (\<forall>x \<in> set (w_ledger w). e_name x \<notin> set (get_migration_files md) \<longrightarrow>
         st_total (get_status md w) < st_applied (get_status md w) + st_pending (get_status md w) \<and>
         e_name x \<notin> set (st_pending_migrations (get_status md w))) \<and>
      (distinct (map e_name (w_ledger w)) \<and>
         e_name ` set (w_ledger w) \<subseteq> set (get_migration_files md) \<longrightarrow>
         st_applied (get_status md w) + st_pending (get_status md w) = st_total (get_status md w)))"
proof -
  let ?F = "get_migration_files md"
  let ?L = "w_ledger w"
  let ?in = "filter (\<lambda>m. m \<in> e_name ` set ?L) ?F"
  let ?out = "filter (\<lambda>m. m \<notin> e_name ` set ?L) ?F"
  have t: "st_total (get_status md w) = length ?F" by (simp add: get_status_def Let_def)
  have a: "st_applied (get_status md w) = length ?L"
    by (simp add: get_status_def Let_def get_applied_migrations_def)
  have pm: "st_pending_migrations (get_status md w) = ?out"
    by (simp add: get_status_def Let_def)
  have p: "st_pending (get_status md w) = length ?out" by (simp add: get_status_def Let_def)
  have split: "length ?F = length ?in + length ?out"
    using sum_length_filter_compl [of "\<lambda>m. m \<in> e_name ` set ?L" ?F] by simp
  have wf: "length ?F \<le> length ?L + length ?out \<and>
      (length ?L + length ?out = length ?F \<longrightarrow> e_name ` set ?L \<subseteq> set ?F) \<and>
      (\<forall>x \<in> set ?L. e_name x \<notin> set ?F \<longrightarrow>
         length ?F < length ?L + length ?out \<and> e_name x \<notin> set ?out) \<and>
      (distinct (map e_name ?L) \<and> e_name ` set ?L \<subseteq> set ?F \<longrightarrow>
         length ?L + length ?out = length ?F)"
    if "wf_dir md"
  proof -
    have d: "distinct ?F" using that by (rule distinct_get_migration_files)
    have 1: "length ?F \<le> length ?L + length ?out"
      using split length_filter_in_le [OF d, of ?L] by simp
    have 3: "length ?F < length ?L + length ?out \<and> e_name x \<notin> set ?out"
      if "x \<in> set ?L" "e_name x \<notin> set ?F" for x
      using split length_filter_in_less [OF d that] that(2) by simp
    have 2: "e_name ` set ?L \<subseteq> set ?F" if "length ?L + length ?out = length ?F"
    proof (rule ccontr)
      assume "\<not> e_name ` set ?L \<subseteq> set ?F"
      then obtain x where "x \<in> set ?L" "e_name x \<notin> set ?F" by auto
      from 3 [OF this] that show False by simp
    qed
    have 4: "length ?L + length ?out = length ?F"
      if "distinct (map e_name ?L)" "e_name ` set ?L \<subseteq> set ?F"
      using split length_filter_in_eq [OF d that] by simp
    show ?thesis using 1 2 3 4 by blast
  qed
  show ?thesis unfolding t a pm p using wf by blast
qed

theorem get_status_counts_witness:
  "wf_dir ex_dir \<and>
   st_applied (get_status ex_dir ex_applied) + st_pending (get_status ex_dir ex_applied) =
     st_total (get_status ex_dir ex_applied) \<and>
   distinct (map e_name (w_ledger ex_applied)) \<and>
   e_name ` set (w_ledger ex_applied) \<subseteq> set (get_migration_files ex_dir) \<and>
   gone_doc \<in> set (w_ledger ex_orphan) \<and>
   e_name gone_doc \<notin> set (get_migration_files ex_dir) \<and>
   st_total (get_status ex_dir ex_orphan) <
     st_applied (get_status ex_dir ex_orphan) + st_pending (get_status ex_dir ex_orphan) \<and>
   e_name gone_doc \<notin> set (st_pending_migrations (get_status ex_dir ex_orphan)) \<and>
   st_total (get_status ex_dir ex_orphan) = 2 \<and>
   st_applied (get_status ex_dir ex_orphan) = 2 \<and>
   st_pending (get_status ex_dir ex_orphan) = 1 \<and>
   st_pending_migrations (get_status ex_dir ex_orphan) = [''20250102000000_add_index.py'']"
proof -
  have h1: "wf_dir ex_dir" by (simp add: wf_dir_def ex_dir_def ex_entries_def)
  have f: "get_migration_files ex_dir =
      [''20250101000000_init.py'', ''20250102000000_add_index.py'']" by code_simp
  have h2: "distinct (map e_name (w_ledger ex_applied))"
    by (simp add: ex_applied_def init_doc_def add_index_doc_def)
  have h3: "e_name ` set (w_ledger ex_applied) \<subseteq> set (get_migration_files ex_dir)"
    unfolding f by (simp add: ex_applied_def init_doc_def add_index_doc_def)
  have h4: "gone_doc \<in> set (w_ledger ex_orphan)" by (simp add: ex_orphan_def)
  have h5: "e_name gone_doc \<notin> set (get_migration_files ex_dir)"
    unfolding f by (simp add: gone_doc_def)
  note a = get_status_counts [of ex_dir ex_applied]
  note b = get_status_counts [of ex_dir ex_orphan]
  from a h1 h2 h3 have 1:
    "st_applied (get_status ex_dir ex_applied) + st_pending (get_status ex_dir ex_applied) =
     st_total (get_status ex_dir ex_applied)" by blast
  from b h1 h4 h5 have 2: "st_total (get_status ex_dir ex_orphan) <
     st_applied (get_status ex_dir ex_orphan) + st_pending (get_status ex_dir ex_orphan)"
    "e_name gone_doc \<notin> set (st_pending_migrations (get_status ex_dir ex_orphan))" by blast+
  have v: "st_total (get_status ex_dir ex_orphan) = 2"
    "st_applied (get_status ex_dir ex_orphan) = 2"
    "st_pending (get_status ex_dir ex_orphan) = 1"
    "st_pending_migrations (get_status ex_dir ex_orphan) = [''20250102000000_add_index.py'']"
    by code_simp+
  show ?thesis using h1 h2 h3 h4 h5 1 2 v by blast
qed

section \<open>Authoring\<close>





lemma digits_all: "list_all (\<lambda>n. digit n \<in> set ''0123456789'') [0..<10]"
  by code_simp

lemma digit_in_digits: "n < 10 \<Longrightarrow> digit n \<in> set ''0123456789''"
  using digits_all unfolding list_all_iff by (metis atLeastLessThan_iff set_upt zero_le)

lemma digit_not_underscore: "n < 10 \<Longrightarrow> digit n \<noteq> CHR ''_''"
  using digit_in_digits [of n] by auto



























end
